theory Spec2Isabelle
  imports Complex_Main
begin

section \<open>The OpenAI-compatible content generator\<close>

text \<open>
  A shallow embedding of \<^verbatim>\<open>OpenAIContentGenerator\<close>: the request translator
  \<^verbatim>\<open>convertToOpenAIRequest\<close> with \<^verbatim>\<open>convertContentToOpenAIMessage\<close>, the
  non-streaming reconstructor \<^verbatim>\<open>convertFromOpenAIResponse\<close>, the streaming
  reconstructor \<^verbatim>\<open>convertFromOpenAIStream\<close> and \<^verbatim>\<open>mapFinishReason\<close>.

  What the class takes from its platform is a parameter of the model:
  \<^item> \<open>parse\<close> is \<^verbatim>\<open>JSON.parse\<close>; \<open>None\<close> is the thrown \<^verbatim>\<open>SyntaxError\<close>;
  \<^item> \<open>stringify\<close> is \<^verbatim>\<open>JSON.stringify(v)\<close> and \<open>pretty\<close> is
    \<^verbatim>\<open>JSON.stringify(v, null, 2)\<close>;
  \<^item> \<open>clock\<close> gives the value of \<^verbatim>\<open>Date.now()\<close> read while the turn at a given
    position is translated;
  \<^item> \<open>entropy k\<close> gives the \<open>k\<close>-th reading of the pair \<^verbatim>\<open>Date.now()\<close>,
    \<^verbatim>\<open>Math.random().toString(36).substr(2, 9)\<close> of the reconstructors, which thread
    the number of readings made so far.
\<close>

subsection \<open>JavaScript values\<close>

datatype json =
    JNull
  | JBool bool
  | JNumber real
  | JString string
  | JArray "json list"
  | JObject "(string \<times> json) list"

text \<open>Truthiness of a value, as \<^verbatim>\<open>if (v)\<close> and \<^verbatim>\<open>v || w\<close> test it.\<close>

fun js_truthy :: "json \<Rightarrow> bool" where
  "js_truthy JNull = False"
| "js_truthy (JBool b) = b"
| "js_truthy (JNumber x) = (x \<noteq> 0)"
| "js_truthy (JString s) = (s \<noteq> [])"
| "js_truthy (JArray _) = True"
| "js_truthy (JObject _) = True"

text \<open>An optional string is truthy when it is present and not empty.\<close>

fun str_truthy :: "string option \<Rightarrow> bool" where
  "str_truthy None = False"
| "str_truthy (Some s) = (s \<noteq> [])"

text \<open>\<^verbatim>\<open>s || d\<close> on an optional string.\<close>

fun str_or :: "string option \<Rightarrow> string \<Rightarrow> string" where
  "str_or None d = d"
| "str_or (Some s) d = (if s = [] then d else s)"

text \<open>The decimal numeral of a natural number, as string concatenation renders it.\<close>

fun digit_char :: "nat \<Rightarrow> char" where
  "digit_char n = ''0123456789'' ! n"

fun decimal :: "nat \<Rightarrow> string" where
  "decimal n = (if n < 10 then [digit_char n] else decimal (n div 10) @ [digit_char (n mod 10)])"

subsection \<open>Finish reasons\<close>

datatype FinishReason = STOP | MAX_TOKENS | SAFETY | OTHER

definition mapFinishReason :: "string \<Rightarrow> FinishReason" where
  "mapFinishReason reason =
     (if reason = ''stop'' then STOP
      else if reason = ''length'' then MAX_TOKENS
      else if reason = ''function_call'' \<or> reason = ''tool_calls'' then STOP
      else if reason = ''content_filter'' then SAFETY
      else OTHER)"

subsection \<open>The vendor-neutral model\<close>

text \<open>
  The types of the generation library. A field that the code only reads is an
  \<open>option\<close>, with \<open>None\<close> for a key that is absent or set to \<^verbatim>\<open>undefined\<close>. The
  fields of a part are tested with \<^verbatim>\<open>'text' in part\<close>, which sees a key that is set
  to \<^verbatim>\<open>undefined\<close>, so they keep the three cases apart: the key is missing, the key
  is there without a value, the key has a value.
\<close>

datatype 'a slot = Missing | Undef | Has 'a

fun has_key :: "'a slot \<Rightarrow> bool" where
  "has_key Missing = False"
| "has_key Undef = True"
| "has_key (Has _) = True"

fun slot_value :: "'a slot \<Rightarrow> 'a option" where
  "slot_value Missing = None"
| "slot_value Undef = None"
| "slot_value (Has v) = Some v"

record FunctionCall =
  fc_id :: "string option"
  fc_name :: "string option"
  fc_args :: "json option"

record FunctionResponse =
  fr_id :: "string option"
  fr_name :: "string option"
  fr_response :: "json option"

record FileData =
  fd_name :: "string option"
  fd_fileUri :: "string option"

text \<open>A part with none of the four keys is a part of another kind (inline data, code).\<close>

record Part =
  p_text :: "string slot"
  p_functionCall :: "FunctionCall slot"
  p_functionResponse :: "FunctionResponse slot"
  p_fileData :: "FileData slot"

record Content =
  c_role :: "string option"
  c_parts :: "Part list option"

datatype PartUnion = PUPart Part | PUString string

datatype ContentUnion =
    CUString string
  | CUPart Part
  | CUContent Content
  | CUParts "PartUnion list"

datatype ContentItem = ItemContent Content | ItemPart Part | ItemString string

datatype ContentListUnion = OneItem ContentItem | ManyItems "ContentItem list"

record FunctionDeclaration =
  decl_name :: "string option"
  decl_description :: "string option"
  decl_parametersJsonSchema :: "json option"
  decl_parameters :: "json option"

record Tool =
  functionDeclarations :: "FunctionDeclaration list option"

record GenerateContentConfig =
  systemInstruction :: "ContentUnion option"
  responseMimeType :: "string option"
  responseJsonSchema :: "json option"
  temperature :: "real option"
  topP :: "real option"
  tools :: "Tool list option"

record GenerateContentParameters =
  contents :: ContentListUnion
  config :: "GenerateContentConfig option"

record Candidate =
  cand_content :: Content
  cand_finishReason :: "FinishReason option"
  cand_index :: int

record UsageMetadata =
  promptTokenCount :: int
  candidatesTokenCount :: int
  totalTokenCount :: int

text \<open>
  The fields \<^verbatim>\<open>text\<close>, \<^verbatim>\<open>data\<close>, \<^verbatim>\<open>executableCode\<close> and
  \<^verbatim>\<open>codeExecutionResult\<close> of a response are always \<^verbatim>\<open>undefined\<close> and are left out.
\<close>

record GenerateContentResponse =
  candidates :: "Candidate list"
  usageMetadata :: "UsageMetadata option"
  functionCalls :: "FunctionCall list option"

subsection \<open>The wire format\<close>

text \<open>
  The nested object \<^verbatim>\<open>function: {name, arguments}\<close> of a tool call is flattened into
  the record of the call; the constant \<^verbatim>\<open>type: 'function'\<close> is left out.
\<close>

record OpenAIToolCall =
  tc_id :: string
  tc_name :: string
  tc_arguments :: string

datatype WireContent = Null | Undefined | Text string

record OpenAIMessage =
  m_role :: "string option"
  m_content :: WireContent
  m_tool_calls :: "OpenAIToolCall list option"
  m_tool_call_id :: "string option"

record OpenAIFunction =
  of_name :: string
  of_description :: "string option"
  of_parameters :: json

record OpenAIChatRequest =
  req_model :: string
  req_messages :: "OpenAIMessage list"
  req_stream :: bool
  req_temperature :: "real option"
  req_top_p :: "real option"
  req_tools :: "OpenAIFunction list option"
  req_tool_choice :: "string option"

record LegacyCall =
  lc_name :: string
  lc_arguments :: string

record ResponseMessage =
  rm_content :: "string option"
  rm_function_call :: "LegacyCall option"
  rm_tool_calls :: "OpenAIToolCall list option"

record Choice =
  ch_index :: int
  ch_message :: ResponseMessage
  ch_finish_reason :: string

record Usage =
  prompt_tokens :: int
  completion_tokens :: int
  total_tokens :: int

record OpenAIChatResponse =
  r_choices :: "Choice list"
  r_usage :: "Usage option"

record FunctionCallDelta =
  fcd_name :: "string option"
  fcd_arguments :: "string option"

record ToolCallDelta =
  tcd_index :: int
  tcd_id :: "string option"
  tcd_name :: "string option"
  tcd_arguments :: "string option"

record Delta =
  d_content :: "string option"
  d_function_call :: "FunctionCallDelta option"
  d_tool_calls :: "ToolCallDelta list option"

record StreamChoice =
  sc_index :: int
  sc_delta :: Delta
  sc_finish_reason :: "string option"

record OpenAIStreamChunk =
  chunk_choices :: "StreamChoice list"

datatype error = NoChoices

subsection \<open>The request translator\<close>

text \<open>
  \<^verbatim>\<open>parts.find(part => key in part)\<close> followed by the test of the value of the part
  found: the first part that has the key decides, also when its value is
  \<^verbatim>\<open>undefined\<close>.
\<close>

definition first_with :: "(Part \<Rightarrow> 'a slot) \<Rightarrow> Part list \<Rightarrow> 'a option" where
  "first_with field parts =
     (case find (\<lambda>part. has_key (field part)) parts of
        None \<Rightarrow> None
      | Some part \<Rightarrow> slot_value (field part))"

text \<open>\<^verbatim>\<open>v || d\<close> on an optional value.\<close>

definition json_or :: "json option \<Rightarrow> json \<Rightarrow> json" where
  "json_or v d = (case v of None \<Rightarrow> d | Some x \<Rightarrow> if js_truthy x then x else d)"

fun join :: "string \<Rightarrow> string list \<Rightarrow> string" where
  "join sep [] = []"
| "join sep [x] = x"
| "join sep (x # y # ys) = x @ sep @ join sep (y # ys)"

definition tool_message :: "(json \<Rightarrow> string) \<Rightarrow> FunctionResponse \<Rightarrow> OpenAIMessage" where
  "tool_message stringify fr =
     \<lparr> m_role = Some ''tool'',
       m_content = (case fr_response fr of None \<Rightarrow> Undefined | Some v \<Rightarrow> Text (stringify v)),
       m_tool_calls = None,
       m_tool_call_id = Some (str_or (fr_id fr) ''unknown'') \<rparr>"

definition call_message :: "(json \<Rightarrow> string) \<Rightarrow> nat \<Rightarrow> FunctionCall \<Rightarrow> OpenAIMessage" where
  "call_message stringify now fc =
     \<lparr> m_role = Some ''assistant'',
       m_content = Null,
       m_tool_calls = Some
         [\<lparr> tc_id = str_or (fc_id fc) (''call_'' @ decimal now),
            tc_name = str_or (fc_name fc) [],
            tc_arguments = stringify (json_or (fc_args fc) (JObject [])) \<rparr>],
       m_tool_call_id = None \<rparr>"

definition text_message :: "string option \<Rightarrow> string \<Rightarrow> OpenAIMessage" where
  "text_message role txt =
     \<lparr> m_role = role, m_content = Text txt, m_tool_calls = None, m_tool_call_id = None \<rparr>"

definition describe_part :: "Part \<Rightarrow> string" where
  "describe_part part =
     (case p_fileData part of
        Missing \<Rightarrow> ''[Unsupported content type]''
      | Undef \<Rightarrow> ''[File: unknown]''
      | Has fileData \<Rightarrow>
          ''[File: '' @ str_or (fd_name fileData) (str_or (fd_fileUri fileData) ''unknown'') @ '']'')"

definition convertContentToOpenAIMessage ::
  "(json \<Rightarrow> string) \<Rightarrow> nat \<Rightarrow> Content \<Rightarrow> OpenAIMessage option" where
  "convertContentToOpenAIMessage stringify now content =
     (case c_parts content of
        None \<Rightarrow> None
      | Some parts \<Rightarrow>
         (if parts = [] then None
          else
           (let role = (if c_role content = Some ''model'' then Some ''assistant''
                        else c_role content)
            in
             (case first_with p_functionResponse parts of
                Some fr \<Rightarrow> Some (tool_message stringify fr)
              | None \<Rightarrow>
                 (case first_with p_functionCall parts of
                    Some fc \<Rightarrow> Some (call_message stringify now fc)
                  | None \<Rightarrow>
                     (let textParts = filter (\<lambda>part. has_key (p_text part)) parts;
                          otherParts =
                            filter (\<lambda>part. \<not> has_key (p_text part)
                                              \<and> \<not> has_key (p_functionCall part)
                                              \<and> \<not> has_key (p_functionResponse part)) parts
                      in
                       (if textParts \<noteq> [] then
                          Some (text_message role
                                  (concat (map (\<lambda>part. str_or (slot_value (p_text part)) [])
                                             textParts)))
                        else if otherParts \<noteq> [] then
                          Some (text_message role
                                  (join ''\<newline>'' (map describe_part otherParts)))
                        else None)))))))"

text \<open>
  The text of the system instruction:
  \<^verbatim>\<open>instruction.text || instruction.parts?.[0]?.text || ''\<close> on an object.
\<close>

fun instruction_text :: "ContentUnion \<Rightarrow> string" where
  "instruction_text (CUString s) = s"
| "instruction_text (CUPart part) = str_or (slot_value (p_text part)) []"
| "instruction_text (CUContent content) =
     (case c_parts content of
        Some (part # _) \<Rightarrow> str_or (slot_value (p_text part)) []
      | _ \<Rightarrow> [])"
| "instruction_text (CUParts _) = []"

definition jsonInstruction :: "(json \<Rightarrow> string) \<Rightarrow> string \<Rightarrow> json \<Rightarrow> string" where
  "jsonInstruction pretty systemText schema =
     (if systemText \<noteq> [] then ''\<newline>\<newline>'' else [])
     @ ''IMPORTANT: You must respond with valid JSON that follows this exact schema:\<newline>''
     @ pretty schema
     @ ''\<newline>\<newline>Return only the JSON object, no additional text or markdown formatting.''"

definition system_text :: "(json \<Rightarrow> string) \<Rightarrow> GenerateContentConfig option \<Rightarrow> string" where
  "system_text pretty cfg =
     (let systemText =
            (case cfg of
               None \<Rightarrow> []
             | Some c \<Rightarrow> (case systemInstruction c of None \<Rightarrow> [] | Some i \<Rightarrow> instruction_text i))
      in case cfg of
           None \<Rightarrow> systemText
         | Some c \<Rightarrow>
            (case responseJsonSchema c of
               None \<Rightarrow> systemText
             | Some schema \<Rightarrow>
                 if responseMimeType c = Some ''application/json'' \<and> js_truthy schema
                 then systemText @ jsonInstruction pretty systemText schema
                 else systemText))"

text \<open>The elements of \<^verbatim>\<open>request.contents\<close> that are objects with a \<^verbatim>\<open>parts\<close> key.\<close>

fun is_content :: "ContentItem \<Rightarrow> Content option" where
  "is_content (ItemContent c) = (if c_parts c \<noteq> None then Some c else None)"
| "is_content (ItemPart _) = None"
| "is_content (ItemString _) = None"

fun contentArray :: "ContentListUnion \<Rightarrow> Content list" where
  "contentArray (ManyItems items) = List.map_filter is_content items"
| "contentArray (OneItem _) = []"

definition convertContents ::
  "(json \<Rightarrow> string) \<Rightarrow> (nat \<Rightarrow> nat) \<Rightarrow> Content list \<Rightarrow> OpenAIMessage list" where
  "convertContents stringify clock cs =
     List.map_filter (\<lambda>(i, content). convertContentToOpenAIMessage stringify (clock i) content)
       (enumerate 0 cs)"

definition convertDeclaration :: "FunctionDeclaration \<Rightarrow> OpenAIFunction" where
  "convertDeclaration func =
     \<lparr> of_name = str_or (decl_name func) ''unknown_function'',
       of_description = decl_description func,
       of_parameters =
         json_or (decl_parametersJsonSchema func) (json_or (decl_parameters func) (JObject [])) \<rparr>"

definition convertTools :: "GenerateContentConfig option \<Rightarrow> OpenAIFunction list" where
  "convertTools cfg =
     (case cfg of
        None \<Rightarrow> []
      | Some c \<Rightarrow>
         (case tools c of
            None \<Rightarrow> []
          | Some ts \<Rightarrow>
              concat (map (\<lambda>tool. case functionDeclarations tool of
                                     None \<Rightarrow> []
                                   | Some decls \<Rightarrow> map convertDeclaration decls) ts)))"

definition convertToOpenAIRequest ::
  "string \<Rightarrow> (json \<Rightarrow> string) \<Rightarrow> (json \<Rightarrow> string) \<Rightarrow> (nat \<Rightarrow> nat)
     \<Rightarrow> GenerateContentParameters \<Rightarrow> bool \<Rightarrow> OpenAIChatRequest" where
  "convertToOpenAIRequest model stringify pretty clock request stream =
     (let systemText = system_text pretty (config request);
          messages =
            (if systemText \<noteq> [] then [text_message (Some ''system'') systemText] else [])
            @ convertContents stringify clock (contentArray (contents request));
          wireTools = convertTools (config request)
      in \<lparr> req_model = model,
           req_messages = messages,
           req_stream = stream,
           req_temperature = (case config request of None \<Rightarrow> None | Some c \<Rightarrow> temperature c),
           req_top_p = (case config request of None \<Rightarrow> None | Some c \<Rightarrow> topP c),
           req_tools = (if wireTools \<noteq> [] then Some wireTools else None),
           req_tool_choice = (if wireTools \<noteq> [] then Some ''auto'' else None) \<rparr>)"

subsection \<open>Function-call parts\<close>

text \<open>\<^verbatim>\<open>`call_${Date.now()}_${Math.random().toString(36).substr(2, 9)}`\<close>\<close>

definition mint :: "(nat \<Rightarrow> nat \<times> string) \<Rightarrow> nat \<Rightarrow> string" where
  "mint entropy k = ''call_'' @ decimal (fst (entropy k)) @ ''_'' @ snd (entropy k)"

text \<open>\<^verbatim>\<open>id || `call_...`\<close>: a synthesized id takes one more reading.\<close>

definition id_or_mint :: "(nat \<Rightarrow> nat \<times> string) \<Rightarrow> nat \<Rightarrow> string option \<Rightarrow> string \<times> nat" where
  "id_or_mint entropy k wid =
     (if str_truthy wid then (str_or wid [], k) else (mint entropy k, Suc k))"

definition text_part :: "string \<Rightarrow> Part" where
  "text_part t =
     \<lparr> p_text = Has t, p_functionCall = Missing, p_functionResponse = Missing,
       p_fileData = Missing \<rparr>"

definition call_part :: "string \<Rightarrow> string \<Rightarrow> json \<Rightarrow> Part" where
  "call_part i n a =
     \<lparr> p_text = Missing,
       p_functionCall = Has \<lparr> fc_id = Some i, fc_name = Some n, fc_args = Some a \<rparr>,
       p_functionResponse = Missing,
       p_fileData = Missing \<rparr>"

text \<open>\<^verbatim>\<open>arguments ? JSON.parse(arguments) : {}\<close>; \<open>None\<close> when the parser throws.\<close>

definition parse_arguments :: "(string \<Rightarrow> json option) \<Rightarrow> string option \<Rightarrow> json option" where
  "parse_arguments parse arguments =
     (if str_truthy arguments then parse (str_or arguments []) else Some (JObject []))"

text \<open>
  The \<^verbatim>\<open>try\<close> block that pushes a function-call part, and its \<^verbatim>\<open>catch\<close> block
  that pushes the part with empty arguments.
\<close>

definition push_call ::
  "(string \<Rightarrow> json option) \<Rightarrow> (nat \<Rightarrow> nat \<times> string) \<Rightarrow> nat
     \<Rightarrow> string option \<Rightarrow> string \<Rightarrow> string option \<Rightarrow> Part \<times> nat" where
  "push_call parse entropy k wid name arguments =
     (case parse_arguments parse arguments of
        Some args \<Rightarrow> (call_part (fst (id_or_mint entropy k wid)) name args,
                      snd (id_or_mint entropy k wid))
      | None \<Rightarrow> (call_part (fst (id_or_mint entropy k wid)) name (JObject []),
                 snd (id_or_mint entropy k wid)))"

text \<open>\<^verbatim>\<open>parts.filter(part => part.functionCall).map(part => part.functionCall!)\<close>\<close>

definition function_calls :: "Part list \<Rightarrow> FunctionCall list" where
  "function_calls parts = List.map_filter (\<lambda>part. slot_value (p_functionCall part)) parts"

definition make_response ::
  "Part list \<Rightarrow> FinishReason option \<Rightarrow> int \<Rightarrow> UsageMetadata option \<Rightarrow> GenerateContentResponse" where
  "make_response parts finishReason index usage =
     \<lparr> candidates =
         [\<lparr> cand_content = \<lparr> c_role = Some ''model'', c_parts = Some parts \<rparr>,
            cand_finishReason = finishReason,
            cand_index = index \<rparr>],
       usageMetadata = usage,
       functionCalls =
         (if function_calls parts \<noteq> [] then Some (function_calls parts) else None) \<rparr>"

subsection \<open>The non-streaming reconstructor\<close>

fun convertToolCalls ::
  "(string \<Rightarrow> json option) \<Rightarrow> (nat \<Rightarrow> nat \<times> string) \<Rightarrow> nat
     \<Rightarrow> OpenAIToolCall list \<Rightarrow> Part list \<times> nat" where
  "convertToolCalls parse entropy k [] = ([], k)"
| "convertToolCalls parse entropy k (toolCall # rest) =
     (let pushed = push_call parse entropy k (Some (tc_id toolCall)) (tc_name toolCall)
                     (Some (tc_arguments toolCall));
          more = convertToolCalls parse entropy (snd pushed) rest
      in (fst pushed # fst more, snd more))"

definition message_calls ::
  "(string \<Rightarrow> json option) \<Rightarrow> (nat \<Rightarrow> nat \<times> string) \<Rightarrow> ResponseMessage \<Rightarrow> Part list" where
  "message_calls parse entropy message =
     (if (case rm_tool_calls message of None \<Rightarrow> False | Some tcs \<Rightarrow> tcs \<noteq> [])
      then fst (convertToolCalls parse entropy 0
                  (case rm_tool_calls message of None \<Rightarrow> [] | Some tcs \<Rightarrow> tcs))
      else
        (case rm_function_call message of
           Some fc \<Rightarrow> [fst (push_call parse entropy 0 None (lc_name fc) (Some (lc_arguments fc)))]
         | None \<Rightarrow> []))"

definition convertUsage :: "Usage \<Rightarrow> UsageMetadata" where
  "convertUsage u =
     \<lparr> promptTokenCount = prompt_tokens u,
       candidatesTokenCount = completion_tokens u,
       totalTokenCount = total_tokens u \<rparr>"

definition convertFromOpenAIResponse ::
  "(string \<Rightarrow> json option) \<Rightarrow> (nat \<Rightarrow> nat \<times> string) \<Rightarrow> OpenAIChatResponse
     \<Rightarrow> error + GenerateContentResponse" where
  "convertFromOpenAIResponse parse entropy response =
     (case r_choices response of
        [] \<Rightarrow> Inl NoChoices
      | choice # _ \<Rightarrow>
          Inr (make_response
                 ((if str_truthy (rm_content (ch_message choice))
                   then [text_part (str_or (rm_content (ch_message choice)) [])] else [])
                  @ message_calls parse entropy (ch_message choice))
                 (Some (mapFinishReason (ch_finish_reason choice)))
                 (ch_index choice)
                 (map_option convertUsage (r_usage response))))"

subsection \<open>The streaming reconstructor\<close>

text \<open>
  The accumulator of one call, \<^verbatim>\<open>Partial<FunctionCall> & { arguments?: string }\<close>, and
  the three variables of the generator together with the number of readings of \<open>entropy\<close>
  made so far.
\<close>

record CallAcc =
  acc_id :: "string option"
  acc_name :: "string option"
  acc_arguments :: "string option"

record StreamState =
  currentFunctionCall :: CallAcc
  currentToolCalls :: "(int \<times> CallAcc) list"
  hasActiveToolCalls :: bool
  readings :: nat

definition empty_call :: CallAcc where
  "empty_call = \<lparr> acc_id = None, acc_name = None, acc_arguments = None \<rparr>"

definition initial_state :: StreamState where
  "initial_state =
     \<lparr> currentFunctionCall = empty_call, currentToolCalls = [],
       hasActiveToolCalls = False, readings = 0 \<rparr>"

text \<open>A legacy \<^verbatim>\<open>function_call\<close> fragment: a name mints a fresh id, arguments are appended.\<close>

definition accumulateFunctionCall ::
  "(nat \<Rightarrow> nat \<times> string) \<Rightarrow> FunctionCallDelta \<Rightarrow> StreamState \<Rightarrow> StreamState" where
  "accumulateFunctionCall entropy fragment st =
     (let named =
            (if str_truthy (fcd_name fragment)
             then st \<lparr> currentFunctionCall :=
                         (currentFunctionCall st)
                           \<lparr> acc_name := fcd_name fragment,
                             acc_id := Some (mint entropy (readings st)) \<rparr>,
                       readings := Suc (readings st) \<rparr>
             else st);
          call = currentFunctionCall named
      in (if str_truthy (fcd_arguments fragment)
          then named \<lparr> currentFunctionCall :=
                          call \<lparr> acc_arguments :=
                                   Some (str_or (acc_arguments call) []
                                         @ str_or (fcd_arguments fragment) []) \<rparr> \<rparr>
          else named)
         \<lparr> hasActiveToolCalls := True \<rparr>)"

text \<open>An indexed \<^verbatim>\<open>tool_calls\<close> fragment, applied to the accumulator of its index.\<close>

definition applyToolCallDelta :: "ToolCallDelta \<Rightarrow> CallAcc \<Rightarrow> CallAcc" where
  "applyToolCallDelta fragment call =
     (let c1 = (if str_truthy (tcd_id fragment) then call \<lparr> acc_id := tcd_id fragment \<rparr> else call);
          c2 = (if str_truthy (tcd_name fragment) then c1 \<lparr> acc_name := tcd_name fragment \<rparr> else c1)
      in if str_truthy (tcd_arguments fragment)
         then c2 \<lparr> acc_arguments :=
                     Some (str_or (acc_arguments c2) [] @ str_or (tcd_arguments fragment) []) \<rparr>
         else c2)"

text \<open>
  \<^verbatim>\<open>currentToolCalls.find(tc => tc.index === index)\<close>, a push of a new accumulator when
  there is none, and the update in place of the accumulator found.
\<close>

fun update_call :: "int \<Rightarrow> (CallAcc \<Rightarrow> CallAcc) \<Rightarrow> (int \<times> CallAcc) list \<Rightarrow> (int \<times> CallAcc) list" where
  "update_call index f [] = [(index, f empty_call)]"
| "update_call index f ((i, call) # rest) =
     (if i = index then (i, f call) # rest else (i, call) # update_call index f rest)"

definition accumulateToolCalls :: "ToolCallDelta list \<Rightarrow> StreamState \<Rightarrow> StreamState" where
  "accumulateToolCalls fragments st =
     st \<lparr> currentToolCalls :=
            foldl (\<lambda>calls fragment. update_call (tcd_index fragment) (applyToolCallDelta fragment) calls)
              (currentToolCalls st) fragments,
          hasActiveToolCalls := True \<rparr>"

text \<open>The parts of the accumulators that have a name, the legacy call first.\<close>

definition finalizeFunctionCall ::
  "(string \<Rightarrow> json option) \<Rightarrow> (nat \<Rightarrow> nat \<times> string) \<Rightarrow> nat \<Rightarrow> CallAcc \<Rightarrow> Part list \<times> nat" where
  "finalizeFunctionCall parse entropy k call =
     (if str_truthy (acc_name call)
      then ([fst (push_call parse entropy k (acc_id call) (str_or (acc_name call) [])
                    (acc_arguments call))],
            snd (push_call parse entropy k (acc_id call) (str_or (acc_name call) [])
                    (acc_arguments call)))
      else ([], k))"

fun finalizeToolCalls ::
  "(string \<Rightarrow> json option) \<Rightarrow> (nat \<Rightarrow> nat \<times> string) \<Rightarrow> nat
     \<Rightarrow> (int \<times> CallAcc) list \<Rightarrow> Part list \<times> nat" where
  "finalizeToolCalls parse entropy k [] = ([], k)"
| "finalizeToolCalls parse entropy k ((i, call) # rest) =
     (if str_truthy (acc_name call)
      then
        (let pushed = push_call parse entropy k (acc_id call) (str_or (acc_name call) [])
                        (acc_arguments call);
             more = finalizeToolCalls parse entropy (snd pushed) rest
         in (fst pushed # fst more, snd more))
      else finalizeToolCalls parse entropy k rest)"

definition is_call_finish :: "string option \<Rightarrow> bool" where
  "is_call_finish reason = (reason = Some ''function_call'' \<or> reason = Some ''tool_calls'')"

text \<open>
  The body of the \<^verbatim>\<open>if\<close> that finalizes the calls inside the loop: the legacy
  accumulator is reset when it had a name, the list of indexed accumulators is emptied,
  and the flag is cleared on a call finish reason.
\<close>

definition flushCalls ::
  "(string \<Rightarrow> json option) \<Rightarrow> (nat \<Rightarrow> nat \<times> string) \<Rightarrow> string option \<Rightarrow> StreamState
     \<Rightarrow> Part list \<times> StreamState" where
  "flushCalls parse entropy reason st =
     (let legacy = finalizeFunctionCall parse entropy (readings st) (currentFunctionCall st);
          indexed = (if currentToolCalls st \<noteq> []
                     then finalizeToolCalls parse entropy (snd legacy) (currentToolCalls st)
                     else ([], snd legacy))
      in (fst legacy @ fst indexed,
          \<lparr> currentFunctionCall =
              (if str_truthy (acc_name (currentFunctionCall st)) then empty_call
               else currentFunctionCall st),
            currentToolCalls = [],
            hasActiveToolCalls = (if is_call_finish reason then False else hasActiveToolCalls st),
            readings = snd indexed \<rparr>))"

text \<open>The condition of that \<^verbatim>\<open>if\<close>, on the state after the fragments of the chunk.\<close>

definition flush_due :: "StreamState \<Rightarrow> StreamChoice \<Rightarrow> bool" where
  "flush_due st choice =
     (hasActiveToolCalls st
      \<and> (is_call_finish (sc_finish_reason choice)
         \<or> (d_function_call (sc_delta choice) = None \<and> d_tool_calls (sc_delta choice) = None)))"

definition accumulate :: "(nat \<Rightarrow> nat \<times> string) \<Rightarrow> Delta \<Rightarrow> StreamState \<Rightarrow> StreamState" where
  "accumulate entropy delta st =
     (let st1 = (case d_function_call delta of
                   Some fragment \<Rightarrow> accumulateFunctionCall entropy fragment st
                 | None \<Rightarrow> st)
      in case d_tool_calls delta of
           Some fragments \<Rightarrow> accumulateToolCalls fragments st1
         | None \<Rightarrow> st1)"

text \<open>One iteration of the loop: the response yielded, if any, and the next state.\<close>

definition processChunk ::
  "(string \<Rightarrow> json option) \<Rightarrow> (nat \<Rightarrow> nat \<times> string) \<Rightarrow> StreamState \<Rightarrow> OpenAIStreamChunk
     \<Rightarrow> GenerateContentResponse option \<times> StreamState" where
  "processChunk parse entropy st chunk =
     (case chunk_choices chunk of
        [] \<Rightarrow> (None, st)
      | choice # _ \<Rightarrow>
         (let textParts = (if str_truthy (d_content (sc_delta choice))
                           then [text_part (str_or (d_content (sc_delta choice)) [])] else []);
              st1 = accumulate entropy (sc_delta choice) st;
              flushed = (if flush_due st1 choice
                         then flushCalls parse entropy (sc_finish_reason choice) st1
                         else ([], st1));
              parts = textParts @ fst flushed
          in ((if parts \<noteq> []
               then Some (make_response parts
                            (if str_truthy (sc_finish_reason choice)
                             then Some (mapFinishReason (str_or (sc_finish_reason choice) []))
                             else None)
                            (sc_index choice) None)
               else None),
              snd flushed)))"

fun streamLoop ::
  "(string \<Rightarrow> json option) \<Rightarrow> (nat \<Rightarrow> nat \<times> string) \<Rightarrow> StreamState \<Rightarrow> OpenAIStreamChunk list
     \<Rightarrow> GenerateContentResponse list \<times> StreamState" where
  "streamLoop parse entropy st [] = ([], st)"
| "streamLoop parse entropy st (chunk # rest) =
     (let step = processChunk parse entropy st chunk;
          more = streamLoop parse entropy (snd step) rest
      in ((case fst step of None \<Rightarrow> [] | Some response \<Rightarrow> [response]) @ fst more, snd more))"

text \<open>The parts of the calls still accumulated when the stream has ended.\<close>

definition remainingParts ::
  "(string \<Rightarrow> json option) \<Rightarrow> (nat \<Rightarrow> nat \<times> string) \<Rightarrow> StreamState \<Rightarrow> Part list" where
  "remainingParts parse entropy st =
     (let legacy = finalizeFunctionCall parse entropy (readings st) (currentFunctionCall st)
      in fst legacy @ fst (finalizeToolCalls parse entropy (snd legacy) (currentToolCalls st)))"

definition trailing ::
  "(string \<Rightarrow> json option) \<Rightarrow> (nat \<Rightarrow> nat \<times> string) \<Rightarrow> StreamState
     \<Rightarrow> GenerateContentResponse list" where
  "trailing parse entropy st =
     (if hasActiveToolCalls st \<and> remainingParts parse entropy st \<noteq> []
      then [make_response (remainingParts parse entropy st) (Some STOP) 0 None]
      else [])"

definition convertFromOpenAIStream ::
  "(string \<Rightarrow> json option) \<Rightarrow> (nat \<Rightarrow> nat \<times> string) \<Rightarrow> OpenAIStreamChunk list
     \<Rightarrow> GenerateContentResponse list" where
  "convertFromOpenAIStream parse entropy stream =
     (let run = streamLoop parse entropy initial_state stream
      in fst run @ trailing parse entropy (snd run))"

subsection \<open>Vocabulary of the properties\<close>

text \<open>
  The argument value of a reconstructed call: the parsed argument string, and the empty
  object when the string is empty or does not parse.
\<close>

definition args_or_empty :: "(string \<Rightarrow> json option) \<Rightarrow> string \<Rightarrow> json" where
  "args_or_empty parse arguments =
     (if arguments = [] then JObject []
      else case parse arguments of Some args \<Rightarrow> args | None \<Rightarrow> JObject [])"

text \<open>The role of the wire message of a turn of text.\<close>

definition wire_role :: "Content \<Rightarrow> string option" where
  "wire_role content =
     (if c_role content = Some ''model'' then Some ''assistant'' else c_role content)"

text \<open>The text of the system instruction of a configuration, before any suffix.\<close>

definition instruction_of :: "GenerateContentConfig \<Rightarrow> string" where
  "instruction_of c = (case systemInstruction c of None \<Rightarrow> [] | Some i \<Rightarrow> instruction_text i)"

text \<open>
  A wire request without the ids of its tool calls, and the turns whose translation
  synthesizes an id: those translated by the function-call branch from a call without id.
\<close>

definition erase_call_ids :: "OpenAIMessage \<Rightarrow> OpenAIMessage" where
  "erase_call_ids m =
     m \<lparr> m_tool_calls := map_option (map (\<lambda>call. call \<lparr> tc_id := [] \<rparr>)) (m_tool_calls m) \<rparr>"

definition erase_ids :: "OpenAIChatRequest \<Rightarrow> OpenAIChatRequest" where
  "erase_ids request = request \<lparr> req_messages := map erase_call_ids (req_messages request) \<rparr>"

definition synthesizes_id :: "Content \<Rightarrow> bool" where
  "synthesizes_id content =
     (case c_parts content of
        None \<Rightarrow> False
      | Some parts \<Rightarrow>
          parts \<noteq> [] \<and> first_with p_functionResponse parts = None
          \<and> (case first_with p_functionCall parts of
                None \<Rightarrow> False
              | Some fc \<Rightarrow> \<not> str_truthy (fc_id fc)))"

text \<open>A chunk whose only choice carries one indexed tool-call fragment.\<close>

definition fragment_chunk :: "int \<Rightarrow> ToolCallDelta \<Rightarrow> string option \<Rightarrow> OpenAIStreamChunk" where
  "fragment_chunk index fragment reason =
     \<lparr> chunk_choices =
         [\<lparr> sc_index = index,
            sc_delta = \<lparr> d_content = None, d_function_call = None,
                         d_tool_calls = Some [fragment] \<rparr>,
            sc_finish_reason = reason \<rparr>] \<rparr>"

text \<open>The argument string accumulated so far for an index; empty when there is none.\<close>

definition arguments_at :: "int \<Rightarrow> (int \<times> CallAcc) list \<Rightarrow> string" where
  "arguments_at index calls =
     (case find (\<lambda>entry. fst entry = index) calls of
        None \<Rightarrow> []
      | Some entry \<Rightarrow> str_or (acc_arguments (snd entry)) [])"

text \<open>
  A call as received: the id, if any, the name and the argument string, if any. A part
  reconstructs a call when it is a function-call part with the name of the call, the
  parsed arguments or the empty object, a non-empty id, and the id of the call when the
  call has one.
\<close>

type_synonym received_call = "string option \<times> string \<times> string option"

definition reconstructs :: "(string \<Rightarrow> json option) \<Rightarrow> received_call \<Rightarrow> Part \<Rightarrow> bool" where
  "reconstructs parse call part =
     (case call of (wid, name, arguments) \<Rightarrow>
        (case slot_value (p_functionCall part) of
           None \<Rightarrow> False
         | Some fc \<Rightarrow>
             p_text part = Missing \<and> p_functionResponse part = Missing
             \<and> p_fileData part = Missing
             \<and> fc_name fc = Some name
             \<and> fc_args fc = Some (args_or_empty parse (str_or arguments []))
             \<and> str_truthy (fc_id fc)
             \<and> (str_truthy wid \<longrightarrow> fc_id fc = wid)))"


text \<open>The calls accumulated in a state that have a name, the legacy call first.\<close>

definition pending_calls :: "StreamState \<Rightarrow> received_call list" where
  "pending_calls st =
     map (\<lambda>call. (acc_id call, str_or (acc_name call) [], acc_arguments call))
       (filter (\<lambda>call. str_truthy (acc_name call))
          (currentFunctionCall st # map snd (currentToolCalls st)))"

text \<open>The text part staged for a fragment of content.\<close>

definition staged_text :: "string option \<Rightarrow> Part list" where
  "staged_text content = (if str_truthy content then [text_part (str_or content [])] else [])"

text \<open>What a chunk says through its first choice, the one the reconstructor reads.\<close>

definition carries_calls :: "OpenAIStreamChunk \<Rightarrow> bool" where
  "carries_calls chunk =
     (case chunk_choices chunk of
        [] \<Rightarrow> False
      | choice # _ \<Rightarrow>
          d_function_call (sc_delta choice) \<noteq> None \<or> d_tool_calls (sc_delta choice) \<noteq> None)"

definition finishes_calls :: "OpenAIStreamChunk \<Rightarrow> bool" where
  "finishes_calls chunk =
     (case chunk_choices chunk of
        [] \<Rightarrow> False
      | choice # _ \<Rightarrow> is_call_finish (sc_finish_reason choice))"

text \<open>
  A chunk is silent when it has a choice whose delta has neither field of call
  fragments. The fragments a stream delivers, of either kind, are those of the first
  choices of its chunks, in order.
\<close>

definition silent :: "OpenAIStreamChunk \<Rightarrow> bool" where
  "silent chunk = (chunk_choices chunk \<noteq> [] \<and> \<not> carries_calls chunk)"

definition legacy_fragments :: "OpenAIStreamChunk list \<Rightarrow> FunctionCallDelta list" where
  "legacy_fragments stream =
     List.map_filter
       (\<lambda>chunk. case chunk_choices chunk of
                  [] \<Rightarrow> None
                | choice # _ \<Rightarrow> d_function_call (sc_delta choice))
       stream"

definition tool_fragments :: "OpenAIStreamChunk list \<Rightarrow> ToolCallDelta list" where
  "tool_fragments stream =
     concat (map (\<lambda>chunk. case chunk_choices chunk of
                            [] \<Rightarrow> []
                          | choice # _ \<Rightarrow>
                             (case d_tool_calls (sc_delta choice) of
                                None \<Rightarrow> []
                              | Some fragments \<Rightarrow> fragments))
                 stream)"

text \<open>
  The call that a list of fragments delivers, read off the fragments alone: the last id
  and the last name that are not empty, and the argument fragments joined in arrival
  order. The indexed calls of a list of fragments are those of the fragments of each
  index, the indices in the order of their first appearance.
\<close>

definition last_truthy :: "string option list \<Rightarrow> string option" where
  "last_truthy xs =
     (if filter str_truthy xs = [] then None else last (filter str_truthy xs))"

definition joined :: "string option list \<Rightarrow> string option" where
  "joined xs =
     (if filter str_truthy xs = [] then None else Some (concat (map (\<lambda>x. str_or x []) xs)))"

definition assemble_call :: "ToolCallDelta list \<Rightarrow> CallAcc" where
  "assemble_call fragments =
     \<lparr> acc_id = last_truthy (map tcd_id fragments),
       acc_name = last_truthy (map tcd_name fragments),
       acc_arguments = joined (map tcd_arguments fragments) \<rparr>"

definition assemble :: "ToolCallDelta list \<Rightarrow> (int \<times> CallAcc) list" where
  "assemble fragments =
     map (\<lambda>index. (index, assemble_call (filter (\<lambda>fragment. tcd_index fragment = index) fragments)))
       (rev (remdups (rev (map tcd_index fragments))))"

text \<open>
  The calls that a stream delivers, read off its fragments alone: the legacy call, when a
  legacy fragment names it, with the legacy argument fragments joined, and then the
  indexed calls that have a name. The legacy call arrives without an id.
\<close>

definition delivered :: "OpenAIStreamChunk list \<Rightarrow> received_call list" where
  "delivered stream =
     (if str_truthy (last_truthy (map fcd_name (legacy_fragments stream)))
      then [(None, str_or (last_truthy (map fcd_name (legacy_fragments stream))) [],
             Some (concat (map (\<lambda>fragment. str_or (fcd_arguments fragment) [])
                             (legacy_fragments stream))))]
      else [])
     @ map (\<lambda>call. (acc_id call, str_or (acc_name call) [], acc_arguments call))
         (filter (\<lambda>call. str_truthy (acc_name call))
            (map snd (assemble (tool_fragments stream))))"

text \<open>
  The flush trigger in the words of the specification: calls are active, and the chunk has
  a call finish reason or its delta carries neither a legacy function-call fragment nor
  any indexed tool-call fragment.
\<close>

definition stated_flush_due :: "StreamState \<Rightarrow> StreamChoice \<Rightarrow> bool" where
  "stated_flush_due st choice =
     (hasActiveToolCalls st
      \<and> (is_call_finish (sc_finish_reason choice)
         \<or> (d_function_call (sc_delta choice) = None
            \<and> (case d_tool_calls (sc_delta choice) of
                  None \<Rightarrow> True
                | Some fragments \<Rightarrow> fragments = []))))"

subsection \<open>Sample data\<close>

text \<open>
  A parser and a serializer that agree with \<^verbatim>\<open>JSON.parse\<close> and
  \<^verbatim>\<open>JSON.stringify\<close> on the texts and values of the examples below, and a source of
  readings.
\<close>

definition sample_parse :: "string \<Rightarrow> json option" where
  \<open>sample_parse s =
     (if s = ''{"city": "SF"}'' then Some (JObject [(''city'', JString ''SF'')])
      else if s = ''{}'' then Some (JObject [])
      else None)\<close>

definition sample_stringify :: "json \<Rightarrow> string" where
  \<open>sample_stringify v =
     (if v = JObject [(''city'', JString ''SF'')] then ''{"city":"SF"}''
      else if v = JObject [(''ok'', JBool True)] then ''{"ok":true}''
      else ''{}'')\<close>

definition sample_pretty :: "json \<Rightarrow> string" where
  \<open>sample_pretty v =
     (if v = JObject [(''type'', JString ''object'')] then ''{\<newline>  "type": "object"\<newline>}''
      else ''{}'')\<close>

definition sample_entropy :: "nat \<Rightarrow> nat \<times> string" where
  "sample_entropy k = (17 + k, ''k3'' @ decimal k)"

text \<open>
  Turns of a request: one with a function response after a text, one with a function
  call without id after a text, one of texts around a file reference, one with a file
  reference alone, one whose only part has the key \<^verbatim>\<open>functionCall\<close> set to
  \<^verbatim>\<open>undefined\<close>, one with a call whose arguments are \<^verbatim>\<open>null\<close>, one of role
  \<open>system\<close>; and two requests for JSON with a schema and no system instruction, the second
  with the turn of role \<open>system\<close>.
\<close>

definition file_part :: Part where
  "file_part =
     \<lparr> p_text = Missing, p_functionCall = Missing, p_functionResponse = Missing,
       p_fileData = Has \<lparr> fd_name = None, fd_fileUri = Some ''gs://bucket/a.png'' \<rparr> \<rparr>"

definition response_part :: Part where
  "response_part =
     \<lparr> p_text = Missing, p_functionCall = Missing,
       p_functionResponse =
         Has \<lparr> fr_id = Some ''call_1'', fr_name = Some ''get_weather'',
                fr_response = Some (JObject [(''ok'', JBool True)]) \<rparr>,
       p_fileData = Missing \<rparr>"

definition mixed_turn :: Content where
  "mixed_turn = \<lparr> c_role = Some ''user'', c_parts = Some [text_part ''done'', response_part] \<rparr>"

definition call_turn :: Content where
  "call_turn =
     \<lparr> c_role = Some ''model'',
       c_parts = Some [text_part ''calling'',
                       call_part [] ''get_weather'' (JObject [(''city'', JString ''SF'')])] \<rparr>"

definition text_turn :: Content where
  "text_turn = \<lparr> c_role = Some ''model'', c_parts = Some [text_part ''pi'', file_part, text_part ''ng''] \<rparr>"

definition file_turn :: Content where
  "file_turn = \<lparr> c_role = Some ''user'', c_parts = Some [file_part] \<rparr>"

definition undefined_call_turn :: Content where
  "undefined_call_turn =
     \<lparr> c_role = Some ''model'',
       c_parts = Some [\<lparr> p_text = Missing, p_functionCall = Undef,
                         p_functionResponse = Missing, p_fileData = Missing \<rparr>] \<rparr>"

definition null_arguments_turn :: Content where
  "null_arguments_turn =
     \<lparr> c_role = Some ''model'',
       c_parts = Some [\<lparr> p_text = Missing,
                         p_functionCall = Has \<lparr> fc_id = Some ''call_9'', fc_name = Some ''noop'',
                                                fc_args = Some JNull \<rparr>,
                         p_functionResponse = Missing, p_fileData = Missing \<rparr>] \<rparr>"

definition system_turn :: Content where
  "system_turn = \<lparr> c_role = Some ''system'', c_parts = Some [text_part ''Be brief''] \<rparr>"

definition schema_request :: GenerateContentParameters where
  "schema_request =
     \<lparr> contents = ManyItems [ItemContent text_turn, ItemString ''ignored'', ItemContent call_turn],
       config = Some \<lparr> systemInstruction = None,
                       responseMimeType = Some ''application/json'',
                       responseJsonSchema = Some (JObject [(''type'', JString ''object'')]),
                       temperature = None, topP = None, tools = None \<rparr> \<rparr>"

definition system_turn_request :: GenerateContentParameters where
  "system_turn_request =
     \<lparr> contents = ManyItems [ItemContent system_turn],
       config = Some \<lparr> systemInstruction = None,
                       responseMimeType = Some ''application/json'',
                       responseJsonSchema = Some (JObject [(''type'', JString ''object'')]),
                       temperature = None, topP = None, tools = None \<rparr> \<rparr>"

text \<open>
  Complete responses: a plain answer, a legacy call beside an empty tool-call list, and
  two tool calls of which the first has a truncated argument string.
\<close>

definition pong_choice :: Choice where
  "pong_choice =
     \<lparr> ch_index = 0,
       ch_message = \<lparr> rm_content = Some ''pong'', rm_function_call = None, rm_tool_calls = None \<rparr>,
       ch_finish_reason = ''stop'' \<rparr>"

definition legacy_choice :: Choice where
  \<open>legacy_choice =
     \<lparr> ch_index = 0,
       ch_message =
         \<lparr> rm_content = None,
           rm_function_call = Some \<lparr> lc_name = ''get_weather'', lc_arguments = ''{"city": "SF"}'' \<rparr>,
           rm_tool_calls = Some [] \<rparr>,
       ch_finish_reason = ''function_call'' \<rparr>\<close>


text \<open>
  Streams: an indexed call that is never finished, a legacy call that is never finished
  and whose arguments arrive in two fragments, and two calls finished in one chunk of
  which the first has a truncated argument string.
\<close>

definition unfinished_stream :: "OpenAIStreamChunk list" where
  \<open>unfinished_stream =
     [fragment_chunk 0 \<lparr> tcd_index = 0, tcd_id = None, tcd_name = Some ''get_weather'',
                         tcd_arguments = None \<rparr> None,
      fragment_chunk 0 \<lparr> tcd_index = 0, tcd_id = None, tcd_name = None,
                         tcd_arguments = Some ''{"city": "SF"}'' \<rparr> None]\<close>

text \<open>A chunk whose only choice carries one legacy function-call fragment.\<close>

definition legacy_chunk :: "FunctionCallDelta \<Rightarrow> OpenAIStreamChunk" where
  "legacy_chunk fragment =
     \<lparr> chunk_choices =
         [\<lparr> sc_index = 0,
            sc_delta = \<lparr> d_content = None, d_function_call = Some fragment,
                         d_tool_calls = None \<rparr>,
            sc_finish_reason = None \<rparr>] \<rparr>"

definition unfinished_legacy_stream :: "OpenAIStreamChunk list" where
  \<open>unfinished_legacy_stream =
     [legacy_chunk \<lparr> fcd_name = Some ''get_weather'', fcd_arguments = None \<rparr>,
      legacy_chunk \<lparr> fcd_name = None, fcd_arguments = Some ''{"city": '' \<rparr>,
      legacy_chunk \<lparr> fcd_name = None, fcd_arguments = Some ''"SF"}'' \<rparr>]\<close>


text \<open>
  A stream that opens a call, the state it leaves, and three chunks that may follow: one
  with an empty list of tool-call fragments, one with text only, one with a finish reason.
\<close>

definition opening_chunk :: OpenAIStreamChunk where
  "opening_chunk =
     fragment_chunk 0 \<lparr> tcd_index = 0, tcd_id = Some ''call_1'', tcd_name = Some ''get_weather'',
                        tcd_arguments = Some ''{}'' \<rparr> None"

definition waiting_state :: StreamState where
  "waiting_state =
     \<lparr> currentFunctionCall = empty_call,
       currentToolCalls =
         [(0, \<lparr> acc_id = Some ''call_1'', acc_name = Some ''get_weather'',
                 acc_arguments = Some ''{}'' \<rparr>)],
       hasActiveToolCalls = True,
       readings = 0 \<rparr>"

definition idle_choice :: StreamChoice where
  "idle_choice =
     \<lparr> sc_index = 0,
       sc_delta = \<lparr> d_content = None, d_function_call = None, d_tool_calls = Some [] \<rparr>,
       sc_finish_reason = None \<rparr>"

definition text_choice :: StreamChoice where
  "text_choice =
     \<lparr> sc_index = 0,
       sc_delta = \<lparr> d_content = Some ''done'', d_function_call = None, d_tool_calls = None \<rparr>,
       sc_finish_reason = None \<rparr>"

definition finish_choice :: StreamChoice where
  "finish_choice =
     \<lparr> sc_index = 0,
       sc_delta = \<lparr> d_content = None, d_function_call = None, d_tool_calls = None \<rparr>,
       sc_finish_reason = Some ''tool_calls'' \<rparr>"

declare decimal.simps [simp del]

section \<open>Properties\<close>

text \<open>
  C7. The finish-reason mapper is a total function of the wire token: it sends
  \<open>stop\<close> to STOP, \<open>length\<close> to MAX_TOKENS, \<open>function_call\<close> and \<open>tool_calls\<close> to STOP,
  \<open>content_filter\<close> to SAFETY, and every other string to OTHER.
\<close>

theorem mapFinishReason_table:
  "mapFinishReason ''stop'' = STOP
   \<and> mapFinishReason ''length'' = MAX_TOKENS
   \<and> mapFinishReason ''function_call'' = STOP
   \<and> mapFinishReason ''tool_calls'' = STOP
   \<and> mapFinishReason ''content_filter'' = SAFETY
   \<and> (\<forall>r. r \<notin> {''stop'', ''length'', ''function_call'', ''tool_calls'', ''content_filter''}
          \<longrightarrow> mapFinishReason r = OTHER)"
  by (simp add: mapFinishReason_def)

theorem mapFinishReason_table_witness:
  "''end_turn'' \<notin> {''stop'', ''length'', ''function_call'', ''tool_calls'', ''content_filter''}
   \<and> mapFinishReason ''end_turn'' = OTHER \<and> mapFinishReason ''stop'' = STOP"
  using mapFinishReason_table by simp

subsection \<open>The non-streaming reconstructor\<close>

text \<open>
  C5. The non-streaming reconstructor fails, with the error for a response without
  choices, exactly when the wire response has zero choices; on every response with at
  least one choice it returns a response.
\<close>

theorem convertFromOpenAIResponse_fails_iff_no_choices:
  "(convertFromOpenAIResponse parse entropy response = Inl NoChoices \<longleftrightarrow> r_choices response = [])
   \<and> ((\<exists>e. convertFromOpenAIResponse parse entropy response = Inl e) \<longleftrightarrow> r_choices response = [])
   \<and> (r_choices response \<noteq> [] \<longrightarrow>
        (\<exists>g. convertFromOpenAIResponse parse entropy response = Inr g))"
  by (cases "r_choices response") (simp_all add: convertFromOpenAIResponse_def)

theorem convertFromOpenAIResponse_fails_iff_no_choices_witness:
  "convertFromOpenAIResponse sample_parse sample_entropy \<lparr> r_choices = [], r_usage = None \<rparr>
     = Inl NoChoices
   \<and> r_choices \<lparr> r_choices = [pong_choice], r_usage = None \<rparr> \<noteq> []
   \<and> (\<exists>g. convertFromOpenAIResponse sample_parse sample_entropy
              \<lparr> r_choices = [pong_choice], r_usage = None \<rparr> = Inr g)"
  using convertFromOpenAIResponse_fails_iff_no_choices
          [of sample_parse sample_entropy "\<lparr> r_choices = [], r_usage = None \<rparr>"]
        convertFromOpenAIResponse_fails_iff_no_choices
          [of sample_parse sample_entropy "\<lparr> r_choices = [pong_choice], r_usage = None \<rparr>"]
  by simp


lemma push_call_args:
  "push_call parse entropy k wid name (Some arguments) =
     (call_part (fst (id_or_mint entropy k wid)) name (args_or_empty parse arguments),
      snd (id_or_mint entropy k wid))"
  by (simp add: push_call_def parse_arguments_def args_or_empty_def split: option.splits)

text \<open>
  C10. A message that carries an empty tool-call list together with a legacy function
  call is treated as if the list were absent: exactly one function-call part is emitted,
  from the legacy call, with a synthesized id and the parsed arguments or the empty object.
\<close>

theorem empty_tool_calls_falls_back_to_legacy:
  assumes "r_choices response = choice # rest"
    and "rm_tool_calls (ch_message choice) = Some []"
    and "rm_function_call (ch_message choice) = Some fc"
  shows "convertFromOpenAIResponse parse entropy response =
           Inr (make_response
                  ((if str_truthy (rm_content (ch_message choice))
                    then [text_part (str_or (rm_content (ch_message choice)) [])] else [])
                   @ [call_part (mint entropy 0) (lc_name fc)
                        (args_or_empty parse (lc_arguments fc))])
                  (Some (mapFinishReason (ch_finish_reason choice)))
                  (ch_index choice)
                  (map_option convertUsage (r_usage response)))
         \<and> convertFromOpenAIResponse parse entropy response =
             convertFromOpenAIResponse parse entropy
               (response \<lparr> r_choices :=
                   choice \<lparr> ch_message := (ch_message choice) \<lparr> rm_tool_calls := None \<rparr> \<rparr> # rest \<rparr>)"
  using assms
  by (simp add: convertFromOpenAIResponse_def message_calls_def push_call_args id_or_mint_def)

theorem empty_tool_calls_falls_back_to_legacy_witness:
  "convertFromOpenAIResponse sample_parse sample_entropy
     \<lparr> r_choices = [legacy_choice], r_usage = None \<rparr> =
   Inr \<lparr> candidates =
           [\<lparr> cand_content =
                \<lparr> c_role = Some ''model'',
                  c_parts = Some [call_part ''call_17_k30'' ''get_weather''
                                    (JObject [(''city'', JString ''SF'')])] \<rparr>,
              cand_finishReason = Some STOP,
              cand_index = 0 \<rparr>],
         usageMetadata = None,
         functionCalls = Some [\<lparr> fc_id = Some ''call_17_k30'', fc_name = Some ''get_weather'',
                                 fc_args = Some (JObject [(''city'', JString ''SF'')]) \<rparr>] \<rparr>"
proof -
  have choices: "r_choices \<lparr> r_choices = [legacy_choice], r_usage = None \<rparr> = legacy_choice # []"
    by simp
  have calls: "rm_tool_calls (ch_message legacy_choice) = Some []"
    by (simp add: legacy_choice_def)
  have legacy: \<open>rm_function_call (ch_message legacy_choice)
                  = Some \<lparr> lc_name = ''get_weather'', lc_arguments = ''{"city": "SF"}'' \<rparr>\<close>
    by (simp add: legacy_choice_def)
  have minted: "mint sample_entropy 0 = ''call_17_k30''"
    by (simp add: mint_def sample_entropy_def decimal.simps)
  from empty_tool_calls_falls_back_to_legacy [OF choices calls legacy, of sample_parse sample_entropy]
  show ?thesis
    by (simp add: minted legacy_choice_def args_or_empty_def sample_parse_def make_response_def function_calls_def
          call_part_def mapFinishReason_def)
qed


subsection \<open>The request translator\<close>

lemma first_with_None:
  "first_with field parts = None \<longleftrightarrow>
     (\<forall>pre p post. parts = pre @ p # post \<and> (\<forall>q\<in>set pre. \<not> has_key (field q))
        \<longrightarrow> field p = Missing \<or> field p = Undef)"
proof (induction parts)
  case Nil
  then show ?case by (simp add: first_with_def)
next
  case (Cons a parts)
  show ?case
  proof (cases "has_key (field a)")
    case True
    have "first_with field (a # parts) = slot_value (field a)"
      using True by (simp add: first_with_def)
    moreover have "(\<forall>pre p post. a # parts = pre @ p # post
                       \<and> (\<forall>q\<in>set pre. \<not> has_key (field q))
                       \<longrightarrow> field p = Missing \<or> field p = Undef)
                   \<longleftrightarrow> field a = Undef"
    proof
      assume "\<forall>pre p post. a # parts = pre @ p # post
                \<and> (\<forall>q\<in>set pre. \<not> has_key (field q))
                \<longrightarrow> field p = Missing \<or> field p = Undef"
      then have "field a = Missing \<or> field a = Undef"
        by (metis append_Nil empty_iff list.set(1))
      with True show "field a = Undef" by auto
    next
      assume undef: "field a = Undef"
      show "\<forall>pre p post. a # parts = pre @ p # post
                \<and> (\<forall>q\<in>set pre. \<not> has_key (field q))
                \<longrightarrow> field p = Missing \<or> field p = Undef"
      proof (intro allI impI)
        fix pre p post
        assume h: "a # parts = pre @ p # post \<and> (\<forall>q\<in>set pre. \<not> has_key (field q))"
        show "field p = Missing \<or> field p = Undef"
        proof (cases pre)
          case Nil
          with h undef show ?thesis by simp
        next
          case (Cons b more)
          with h True show ?thesis by simp
        qed
      qed
    qed
    ultimately show ?thesis
      using True by (cases "field a") simp_all
  next
    case False
    then have missing: "field a = Missing" by (cases "field a") simp_all
    have step: "first_with field (a # parts) = first_with field parts"
      using False by (simp add: first_with_def)
    have "(\<forall>pre p post. a # parts = pre @ p # post
              \<and> (\<forall>q\<in>set pre. \<not> has_key (field q))
              \<longrightarrow> field p = Missing \<or> field p = Undef)
          \<longleftrightarrow> (\<forall>pre p post. parts = pre @ p # post
              \<and> (\<forall>q\<in>set pre. \<not> has_key (field q))
              \<longrightarrow> field p = Missing \<or> field p = Undef)"
    proof
      assume all: "\<forall>pre p post. a # parts = pre @ p # post
              \<and> (\<forall>q\<in>set pre. \<not> has_key (field q))
              \<longrightarrow> field p = Missing \<or> field p = Undef"
      show "\<forall>pre p post. parts = pre @ p # post
              \<and> (\<forall>q\<in>set pre. \<not> has_key (field q))
              \<longrightarrow> field p = Missing \<or> field p = Undef"
      proof (intro allI impI)
        fix pre p post
        assume "parts = pre @ p # post \<and> (\<forall>q\<in>set pre. \<not> has_key (field q))"
        with False have "a # parts = (a # pre) @ p # post
                         \<and> (\<forall>q\<in>set (a # pre). \<not> has_key (field q))"
          by simp
        with all show "field p = Missing \<or> field p = Undef" by blast
      qed
    next
      assume all: "\<forall>pre p post. parts = pre @ p # post
              \<and> (\<forall>q\<in>set pre. \<not> has_key (field q))
              \<longrightarrow> field p = Missing \<or> field p = Undef"
      show "\<forall>pre p post. a # parts = pre @ p # post
              \<and> (\<forall>q\<in>set pre. \<not> has_key (field q))
              \<longrightarrow> field p = Missing \<or> field p = Undef"
      proof (intro allI impI)
        fix pre p post
        assume h: "a # parts = pre @ p # post \<and> (\<forall>q\<in>set pre. \<not> has_key (field q))"
        show "field p = Missing \<or> field p = Undef"
        proof (cases pre)
          case Nil
          with h missing show ?thesis by simp
        next
          case (Cons b more)
          with h have "parts = more @ p # post \<and> (\<forall>q\<in>set more. \<not> has_key (field q))"
            by simp
          with all show ?thesis by blast
        qed
      qed
    qed
    with step Cons.IH show ?thesis by simp
  qed
qed

lemma first_with_Some:
  "first_with field parts = Some x \<longleftrightarrow>
     (\<exists>pre p post. parts = pre @ p # post \<and> (\<forall>q\<in>set pre. \<not> has_key (field q))
        \<and> field p = Has x)"
proof (induction parts)
  case Nil
  then show ?case by (simp add: first_with_def)
next
  case (Cons a parts)
  show ?case
  proof (cases "has_key (field a)")
    case True
    have first: "first_with field (a # parts) = slot_value (field a)"
      using True by (simp add: first_with_def)
    have "(\<exists>pre p post. a # parts = pre @ p # post \<and> (\<forall>q\<in>set pre. \<not> has_key (field q))
             \<and> field p = Has x) \<longleftrightarrow> field a = Has x"
    proof
      assume "\<exists>pre p post. a # parts = pre @ p # post
                \<and> (\<forall>q\<in>set pre. \<not> has_key (field q)) \<and> field p = Has x"
      then obtain pre p post where h: "a # parts = pre @ p # post"
        "\<forall>q\<in>set pre. \<not> has_key (field q)" "field p = Has x"
        by blast
      show "field a = Has x"
      proof (cases pre)
        case Nil
        with h show ?thesis by simp
      next
        case (Cons b more)
        with h True show ?thesis by simp
      qed
    next
      assume "field a = Has x"
      then have "a # parts = [] @ a # parts \<and> (\<forall>q\<in>set []. \<not> has_key (field q))
                 \<and> field a = Has x"
        by simp
      then show "\<exists>pre p post. a # parts = pre @ p # post
                   \<and> (\<forall>q\<in>set pre. \<not> has_key (field q)) \<and> field p = Has x"
        by blast
    qed
    with first show ?thesis
      by (cases "field a") simp_all
  next
    case False
    have step: "first_with field (a # parts) = first_with field parts"
      using False by (simp add: first_with_def)
    have "(\<exists>pre p post. a # parts = pre @ p # post \<and> (\<forall>q\<in>set pre. \<not> has_key (field q))
             \<and> field p = Has x)
          \<longleftrightarrow> (\<exists>pre p post. parts = pre @ p # post \<and> (\<forall>q\<in>set pre. \<not> has_key (field q))
             \<and> field p = Has x)"
    proof
      assume "\<exists>pre p post. a # parts = pre @ p # post
                \<and> (\<forall>q\<in>set pre. \<not> has_key (field q)) \<and> field p = Has x"
      then obtain pre p post where h: "a # parts = pre @ p # post"
        "\<forall>q\<in>set pre. \<not> has_key (field q)" "field p = Has x"
        by blast
      show "\<exists>pre p post. parts = pre @ p # post \<and> (\<forall>q\<in>set pre. \<not> has_key (field q))
              \<and> field p = Has x"
      proof (cases pre)
        case Nil
        with h False show ?thesis by simp
      next
        case (Cons b more)
        with h have "parts = more @ p # post \<and> (\<forall>q\<in>set more. \<not> has_key (field q))
                     \<and> field p = Has x"
          by simp
        then show ?thesis by blast
      qed
    next
      assume "\<exists>pre p post. parts = pre @ p # post
                \<and> (\<forall>q\<in>set pre. \<not> has_key (field q)) \<and> field p = Has x"
      then obtain pre p post where "parts = pre @ p # post"
        "\<forall>q\<in>set pre. \<not> has_key (field q)" "field p = Has x"
        by blast
      with False have "a # parts = (a # pre) @ p # post
                       \<and> (\<forall>q\<in>set (a # pre). \<not> has_key (field q)) \<and> field p = Has x"
        by simp
      then show "\<exists>pre p post. a # parts = pre @ p # post
                   \<and> (\<forall>q\<in>set pre. \<not> has_key (field q)) \<and> field p = Has x"
        by blast
    qed
    with step Cons.IH show ?thesis by simp
  qed
qed

lemma first_with_valued:
  assumes "\<forall>p\<in>set parts. field p \<noteq> Undef"
  shows "first_with field parts = None \<longleftrightarrow> (\<forall>p\<in>set parts. \<not> has_key (field p))"
  using assms
proof (induction parts)
  case Nil
  then show ?case by (simp add: first_with_def)
next
  case (Cons a parts)
  then show ?case
    by (cases "field a") (simp_all add: first_with_def)
qed

text \<open>
  C6, as amended. A turn with a non-empty part list is translated by at most one branch.
  The first part that has the key \<open>functionResponse\<close> decides the first branch: when it
  has a value the turn yields one tool message built from it. Otherwise the first part
  that has the key \<open>functionCall\<close> decides the second: when it has a value the turn yields
  one assistant message with null content and a tool-call list of one element, whose
  arguments are the serialized arguments of the call, or the empty object when they are
  absent or falsy. Otherwise a turn with a part that has the key \<open>text\<close> yields the
  concatenation of the texts, in order, under the role of the turn with \<open>model\<close> renamed
  to \<open>assistant\<close>. Otherwise the parts that have none of the three keys yield their
  placeholders, and when there is no such part the turn yields no message. When no
  \<open>functionResponse\<close> or \<open>functionCall\<close> key is set to \<^verbatim>\<open>undefined\<close>, a branch is
  taken exactly when some part has its key, and the turn always yields a message.
\<close>

theorem convertContent_precedence:
  assumes "c_parts content = Some parts" and "parts \<noteq> []"
  shows "(\<forall>fr. first_with p_functionResponse parts = Some fr \<longleftrightarrow>
            (\<exists>pre p post. parts = pre @ p # post
               \<and> (\<forall>q\<in>set pre. \<not> has_key (p_functionResponse q))
               \<and> p_functionResponse p = Has fr))
       \<and> (\<forall>fc. first_with p_functionCall parts = Some fc \<longleftrightarrow>
            (\<exists>pre p post. parts = pre @ p # post
               \<and> (\<forall>q\<in>set pre. \<not> has_key (p_functionCall q))
               \<and> p_functionCall p = Has fc))
       \<and> (\<forall>fr. first_with p_functionResponse parts = Some fr \<longrightarrow>
            convertContentToOpenAIMessage stringify now content =
              Some \<lparr> m_role = Some ''tool'',
                     m_content = (case fr_response fr of None \<Rightarrow> Undefined
                                  | Some v \<Rightarrow> Text (stringify v)),
                     m_tool_calls = None,
                     m_tool_call_id = Some (str_or (fr_id fr) ''unknown'') \<rparr>)
       \<and> (\<forall>fc. first_with p_functionResponse parts = None
                \<and> first_with p_functionCall parts = Some fc \<longrightarrow>
            convertContentToOpenAIMessage stringify now content =
              Some \<lparr> m_role = Some ''assistant'',
                     m_content = Null,
                     m_tool_calls = Some
                       [\<lparr> tc_id = str_or (fc_id fc) (''call_'' @ decimal now),
                          tc_name = str_or (fc_name fc) [],
                          tc_arguments =
                            stringify (case fc_args fc of
                                         None \<Rightarrow> JObject []
                                       | Some a \<Rightarrow> if js_truthy a then a else JObject []) \<rparr>],
                     m_tool_call_id = None \<rparr>)
       \<and> (first_with p_functionResponse parts = None \<and> first_with p_functionCall parts = None
            \<and> (\<exists>p\<in>set parts. has_key (p_text p)) \<longrightarrow>
            convertContentToOpenAIMessage stringify now content =
              Some \<lparr> m_role = wire_role content,
                     m_content = Text (concat (map (\<lambda>p. str_or (slot_value (p_text p)) [])
                                                (filter (\<lambda>p. has_key (p_text p)) parts))),
                     m_tool_calls = None,
                     m_tool_call_id = None \<rparr>)
       \<and> (first_with p_functionResponse parts = None \<and> first_with p_functionCall parts = None
            \<and> (\<forall>p\<in>set parts. \<not> has_key (p_text p))
            \<and> (\<exists>p\<in>set parts. \<not> has_key (p_functionCall p) \<and> \<not> has_key (p_functionResponse p))
            \<longrightarrow>
            convertContentToOpenAIMessage stringify now content =
              Some \<lparr> m_role = wire_role content,
                     m_content = Text
                       (join ''\<newline>''
                          (map describe_part
                             (filter (\<lambda>p. \<not> has_key (p_functionCall p)
                                          \<and> \<not> has_key (p_functionResponse p)) parts))),
                     m_tool_calls = None,
                     m_tool_call_id = None \<rparr>)
       \<and> (first_with p_functionResponse parts = None \<and> first_with p_functionCall parts = None
            \<and> (\<forall>p\<in>set parts. \<not> has_key (p_text p)
                  \<and> (has_key (p_functionCall p) \<or> has_key (p_functionResponse p)))
            \<longrightarrow> convertContentToOpenAIMessage stringify now content = None)
       \<and> ((\<forall>p\<in>set parts. p_functionResponse p \<noteq> Undef \<and> p_functionCall p \<noteq> Undef) \<longrightarrow>
            convertContentToOpenAIMessage stringify now content \<noteq> None
            \<and> (first_with p_functionResponse parts = None
                 \<longleftrightarrow> (\<forall>p\<in>set parts. \<not> has_key (p_functionResponse p)))
            \<and> (first_with p_functionCall parts = None
                 \<longleftrightarrow> (\<forall>p\<in>set parts. \<not> has_key (p_functionCall p))))"
proof -
  note unfold = convertContentToOpenAIMessage_def text_message_def wire_role_def Let_def
  have responses: "\<forall>fr. first_with p_functionResponse parts = Some fr \<longleftrightarrow>
            (\<exists>pre p post. parts = pre @ p # post
               \<and> (\<forall>q\<in>set pre. \<not> has_key (p_functionResponse q))
               \<and> p_functionResponse p = Has fr)"
    by (intro allI) (rule first_with_Some)
  have calls: "\<forall>fc. first_with p_functionCall parts = Some fc \<longleftrightarrow>
            (\<exists>pre p post. parts = pre @ p # post
               \<and> (\<forall>q\<in>set pre. \<not> has_key (p_functionCall q))
               \<and> p_functionCall p = Has fc)"
    by (intro allI) (rule first_with_Some)
  have a: "\<forall>fr. first_with p_functionResponse parts = Some fr \<longrightarrow>
            convertContentToOpenAIMessage stringify now content =
              Some \<lparr> m_role = Some ''tool'',
                     m_content = (case fr_response fr of None \<Rightarrow> Undefined
                                  | Some v \<Rightarrow> Text (stringify v)),
                     m_tool_calls = None,
                     m_tool_call_id = Some (str_or (fr_id fr) ''unknown'') \<rparr>"
    using assms by (simp add: unfold tool_message_def)
  have b: "\<forall>fc. first_with p_functionResponse parts = None
                \<and> first_with p_functionCall parts = Some fc \<longrightarrow>
            convertContentToOpenAIMessage stringify now content =
              Some \<lparr> m_role = Some ''assistant'',
                     m_content = Null,
                     m_tool_calls = Some
                       [\<lparr> tc_id = str_or (fc_id fc) (''call_'' @ decimal now),
                          tc_name = str_or (fc_name fc) [],
                          tc_arguments =
                            stringify (case fc_args fc of
                                         None \<Rightarrow> JObject []
                                       | Some a \<Rightarrow> if js_truthy a then a else JObject []) \<rparr>],
                     m_tool_call_id = None \<rparr>"
    using assms by (simp add: unfold call_message_def json_or_def)
  have c: "first_with p_functionResponse parts = None \<and> first_with p_functionCall parts = None
            \<and> (\<exists>p\<in>set parts. has_key (p_text p)) \<longrightarrow>
            convertContentToOpenAIMessage stringify now content =
              Some \<lparr> m_role = wire_role content,
                     m_content = Text (concat (map (\<lambda>p. str_or (slot_value (p_text p)) [])
                                                (filter (\<lambda>p. has_key (p_text p)) parts))),
                     m_tool_calls = None,
                     m_tool_call_id = None \<rparr>"
    using assms by (auto simp: unfold filter_empty_conv)
  have d: "first_with p_functionResponse parts = None \<and> first_with p_functionCall parts = None
            \<and> (\<forall>p\<in>set parts. \<not> has_key (p_text p))
            \<and> (\<exists>p\<in>set parts. \<not> has_key (p_functionCall p) \<and> \<not> has_key (p_functionResponse p))
            \<longrightarrow>
            convertContentToOpenAIMessage stringify now content =
              Some \<lparr> m_role = wire_role content,
                     m_content = Text
                       (join ''\<newline>''
                          (map describe_part
                             (filter (\<lambda>p. \<not> has_key (p_functionCall p)
                                          \<and> \<not> has_key (p_functionResponse p)) parts))),
                     m_tool_calls = None,
                     m_tool_call_id = None \<rparr>"
  proof
    assume h: "first_with p_functionResponse parts = None \<and> first_with p_functionCall parts = None
            \<and> (\<forall>p\<in>set parts. \<not> has_key (p_text p))
            \<and> (\<exists>p\<in>set parts. \<not> has_key (p_functionCall p) \<and> \<not> has_key (p_functionResponse p))"
    then have notext: "filter (\<lambda>p. has_key (p_text p)) parts = []"
      by (simp add: filter_empty_conv)
    from h have same: "filter (\<lambda>p. \<not> has_key (p_text p) \<and> \<not> has_key (p_functionCall p)
                                     \<and> \<not> has_key (p_functionResponse p)) parts
                       = filter (\<lambda>p. \<not> has_key (p_functionCall p)
                                     \<and> \<not> has_key (p_functionResponse p)) parts"
      by (auto intro: filter_cong)
    from h have some: "filter (\<lambda>p. \<not> has_key (p_functionCall p)
                                    \<and> \<not> has_key (p_functionResponse p)) parts \<noteq> []"
      by (auto simp: filter_empty_conv)
    from h assms notext same some
    show "convertContentToOpenAIMessage stringify now content =
              Some \<lparr> m_role = wire_role content,
                     m_content = Text
                       (join ''\<newline>''
                          (map describe_part
                             (filter (\<lambda>p. \<not> has_key (p_functionCall p)
                                          \<and> \<not> has_key (p_functionResponse p)) parts))),
                     m_tool_calls = None,
                     m_tool_call_id = None \<rparr>"
      by (simp add: unfold)
  qed
  have e: "first_with p_functionResponse parts = None \<and> first_with p_functionCall parts = None
            \<and> (\<forall>p\<in>set parts. \<not> has_key (p_text p)
                  \<and> (has_key (p_functionCall p) \<or> has_key (p_functionResponse p)))
            \<longrightarrow> convertContentToOpenAIMessage stringify now content = None"
  proof
    assume h: "first_with p_functionResponse parts = None \<and> first_with p_functionCall parts = None
            \<and> (\<forall>p\<in>set parts. \<not> has_key (p_text p)
                  \<and> (has_key (p_functionCall p) \<or> has_key (p_functionResponse p)))"
    then have notext: "filter (\<lambda>p. has_key (p_text p)) parts = []"
      by (simp add: filter_empty_conv)
    from h have noother: "filter (\<lambda>p. \<not> has_key (p_text p) \<and> \<not> has_key (p_functionCall p)
                                     \<and> \<not> has_key (p_functionResponse p)) parts = []"
      by (auto simp: filter_empty_conv)
    from h assms notext noother
    show "convertContentToOpenAIMessage stringify now content = None"
      by (simp add: unfold)
  qed
  have f: "(\<forall>p\<in>set parts. p_functionResponse p \<noteq> Undef \<and> p_functionCall p \<noteq> Undef) \<longrightarrow>
            convertContentToOpenAIMessage stringify now content \<noteq> None
            \<and> (first_with p_functionResponse parts = None
                 \<longleftrightarrow> (\<forall>p\<in>set parts. \<not> has_key (p_functionResponse p)))
            \<and> (first_with p_functionCall parts = None
                 \<longleftrightarrow> (\<forall>p\<in>set parts. \<not> has_key (p_functionCall p)))"
  proof
    assume valued: "\<forall>p\<in>set parts. p_functionResponse p \<noteq> Undef \<and> p_functionCall p \<noteq> Undef"
    then have r: "first_with p_functionResponse parts = None
                    \<longleftrightarrow> (\<forall>p\<in>set parts. \<not> has_key (p_functionResponse p))"
      and k: "first_with p_functionCall parts = None
                    \<longleftrightarrow> (\<forall>p\<in>set parts. \<not> has_key (p_functionCall p))"
      by (simp_all add: first_with_valued)
    have "convertContentToOpenAIMessage stringify now content \<noteq> None"
    proof (cases "first_with p_functionResponse parts")
      case (Some fr)
      with a show ?thesis by simp
    next
      case None
      note nofr = None
      show ?thesis
      proof (cases "first_with p_functionCall parts")
        case (Some fc)
        with nofr b show ?thesis by simp
      next
        case None
        show ?thesis
        proof (cases "\<exists>p\<in>set parts. has_key (p_text p)")
          case True
          with nofr None c show ?thesis by simp
        next
          case False
          from assms(2) obtain p where "p \<in> set parts" by (cases parts) auto
          with nofr None r k have "\<exists>p\<in>set parts. \<not> has_key (p_functionCall p)
                                               \<and> \<not> has_key (p_functionResponse p)"
            by auto
          with nofr None False d show ?thesis by simp
        qed
      qed
    qed
    with r k show "convertContentToOpenAIMessage stringify now content \<noteq> None
            \<and> (first_with p_functionResponse parts = None
                 \<longleftrightarrow> (\<forall>p\<in>set parts. \<not> has_key (p_functionResponse p)))
            \<and> (first_with p_functionCall parts = None
                 \<longleftrightarrow> (\<forall>p\<in>set parts. \<not> has_key (p_functionCall p)))"
      by simp
  qed
  from responses calls a b c d e f show ?thesis
    by (intro conjI)
qed

theorem convertContent_precedence_witness:
  \<open>convertContentToOpenAIMessage sample_stringify 42 mixed_turn =
     Some \<lparr> m_role = Some ''tool'', m_content = Text ''{"ok":true}'',
            m_tool_calls = None, m_tool_call_id = Some ''call_1'' \<rparr>
   \<and> convertContentToOpenAIMessage sample_stringify 42 call_turn =
     Some \<lparr> m_role = Some ''assistant'', m_content = Null,
            m_tool_calls = Some [\<lparr> tc_id = ''call_42'', tc_name = ''get_weather'',
                                    tc_arguments = ''{"city":"SF"}'' \<rparr>],
            m_tool_call_id = None \<rparr>
   \<and> convertContentToOpenAIMessage sample_stringify 42 text_turn =
     Some \<lparr> m_role = Some ''assistant'', m_content = Text ''ping'',
            m_tool_calls = None, m_tool_call_id = None \<rparr>
   \<and> convertContentToOpenAIMessage sample_stringify 42 file_turn =
     Some \<lparr> m_role = Some ''user'', m_content = Text ''[File: gs://bucket/a.png]'',
            m_tool_calls = None, m_tool_call_id = None \<rparr>
   \<and> convertContentToOpenAIMessage sample_stringify 42 undefined_call_turn = None
   \<and> convertContentToOpenAIMessage sample_stringify 42 null_arguments_turn =
     Some \<lparr> m_role = Some ''assistant'', m_content = Null,
            m_tool_calls = Some [\<lparr> tc_id = ''call_9'', tc_name = ''noop'',
                                    tc_arguments = ''{}'' \<rparr>],
            m_tool_call_id = None \<rparr>\<close>
proof -
  have mixed: "c_parts mixed_turn = Some [text_part ''done'', response_part]"
    and call: "c_parts call_turn =
                 Some [text_part ''calling'',
                       call_part [] ''get_weather'' (JObject [(''city'', JString ''SF'')])]"
    and texts: "c_parts text_turn = Some [text_part ''pi'', file_part, text_part ''ng'']"
    and other: "c_parts file_turn = Some [file_part]"
    and undef: "c_parts undefined_call_turn =
                  Some [\<lparr> p_text = Missing, p_functionCall = Undef,
                          p_functionResponse = Missing, p_fileData = Missing \<rparr>]"
    and null: "c_parts null_arguments_turn =
                 Some [\<lparr> p_text = Missing,
                         p_functionCall = Has \<lparr> fc_id = Some ''call_9'', fc_name = Some ''noop'',
                                                fc_args = Some JNull \<rparr>,
                         p_functionResponse = Missing, p_fileData = Missing \<rparr>]"
    by (simp_all add: mixed_turn_def call_turn_def text_turn_def file_turn_def
          undefined_call_turn_def null_arguments_turn_def)
  have forty_two: "decimal 42 = ''42''"
    by (simp add: decimal.simps)
  note evals = forty_two text_part_def call_part_def response_part_def file_part_def
          wire_role_def mixed_turn_def call_turn_def text_turn_def file_turn_def
          undefined_call_turn_def null_arguments_turn_def describe_part_def
          sample_stringify_def first_with_def
  have r1: \<open>convertContentToOpenAIMessage sample_stringify 42 mixed_turn =
     Some \<lparr> m_role = Some ''tool'', m_content = Text ''{"ok":true}'',
            m_tool_calls = None, m_tool_call_id = Some ''call_1'' \<rparr>\<close>
    using convertContent_precedence [OF mixed, of sample_stringify 42]
    by (simp add: evals)
  have r2: \<open>convertContentToOpenAIMessage sample_stringify 42 call_turn =
     Some \<lparr> m_role = Some ''assistant'', m_content = Null,
            m_tool_calls = Some [\<lparr> tc_id = ''call_42'', tc_name = ''get_weather'',
                                    tc_arguments = ''{"city":"SF"}'' \<rparr>],
            m_tool_call_id = None \<rparr>\<close>
    using convertContent_precedence [OF call, of sample_stringify 42]
    by (simp add: evals)
  have r3: "convertContentToOpenAIMessage sample_stringify 42 text_turn =
     Some \<lparr> m_role = Some ''assistant'', m_content = Text ''ping'',
            m_tool_calls = None, m_tool_call_id = None \<rparr>"
    using convertContent_precedence [OF texts, of sample_stringify 42]
    by (simp add: evals)
  have r4: "convertContentToOpenAIMessage sample_stringify 42 file_turn =
     Some \<lparr> m_role = Some ''user'', m_content = Text ''[File: gs://bucket/a.png]'',
            m_tool_calls = None, m_tool_call_id = None \<rparr>"
    using convertContent_precedence [OF other, of sample_stringify 42]
    by (simp add: evals)
  have r5: "convertContentToOpenAIMessage sample_stringify 42 undefined_call_turn = None"
    using convertContent_precedence [OF undef, of sample_stringify 42]
    by (simp add: evals)
  have r6: "convertContentToOpenAIMessage sample_stringify 42 null_arguments_turn =
     Some \<lparr> m_role = Some ''assistant'', m_content = Null,
            m_tool_calls = Some [\<lparr> tc_id = ''call_9'', tc_name = ''noop'',
                                    tc_arguments = ''{}'' \<rparr>],
            m_tool_call_id = None \<rparr>"
    using convertContent_precedence [OF null, of sample_stringify 42]
    by (simp add: evals)
  from r1 r2 r3 r4 r5 r6 show ?thesis by simp
qed

text \<open>
  The claim as stated fails on a turn whose only part has the key \<open>functionCall\<close> set to
  \<^verbatim>\<open>undefined\<close>: the part list is not empty, no branch applies and no message is
  emitted.
\<close>

theorem convertContent_precedence_counterexample:
  "c_parts undefined_call_turn =
     Some [\<lparr> p_text = Missing, p_functionCall = Undef,
             p_functionResponse = Missing, p_fileData = Missing \<rparr>]
   \<and> convertContentToOpenAIMessage sample_stringify 42 undefined_call_turn = None"
  by (simp add: undefined_call_turn_def convertContentToOpenAIMessage_def first_with_def)

lemma system_text_with_schema:
  assumes "responseMimeType c = Some ''application/json''"
    and "responseJsonSchema c = Some schema" and "js_truthy schema"
  shows "system_text pretty (Some c) =
           instruction_of c @ jsonInstruction pretty (instruction_of c) schema"
  using assms by (simp add: system_text_def instruction_of_def Let_def)

lemma convertContent_role:
  assumes "convertContentToOpenAIMessage stringify now content = Some m"
    and "c_role content \<noteq> Some ''system''"
  shows "m_role m \<noteq> Some ''system''"
  using assms
  by (auto simp: convertContentToOpenAIMessage_def tool_message_def call_message_def
        text_message_def Let_def split: option.splits if_splits)

lemma convertContents_no_system:
  "\<forall>turn\<in>set cs. c_role turn \<noteq> Some ''system'' \<Longrightarrow>
     filter (\<lambda>m. m_role m = Some ''system'')
       (List.map_filter (\<lambda>(i, content). convertContentToOpenAIMessage stringify (clock i) content)
          (enumerate n cs)) = []"
proof (induction cs arbitrary: n)
  case Nil
  then show ?case by simp
next
  case (Cons c cs)
  then have rest: "filter (\<lambda>m. m_role m = Some ''system'')
       (List.map_filter (\<lambda>(i, content). convertContentToOpenAIMessage stringify (clock i) content)
          (enumerate (Suc n) cs)) = []"
    by simp
  from Cons.prems have "c_role c \<noteq> Some ''system''" by simp
  then show ?case
    using rest convertContent_role [of stringify "clock n" c]
    by (cases "convertContentToOpenAIMessage stringify (clock n) c") simp_all
qed

text \<open>
  C8, as amended. The system message is the first message exactly when the system text
  is not empty, and nothing else is put before the translated turns. For a request that
  asks for a JSON response and carries a schema (a truthy value), the system text is the
  text of the system instruction followed by a suffix that holds the serialized schema
  and asks for the JSON object only, with no markdown formatting; so the system message
  is always there, and with an empty system instruction its content is that suffix
  alone. It is the only message of role \<open>system\<close> when no translated turn has the role
  \<open>system\<close>; a turn of that role keeps it.
\<close>

theorem json_schema_instruction:
  "req_messages (convertToOpenAIRequest model stringify pretty clock request stream) =
     (if system_text pretty (config request) = [] then []
      else [\<lparr> m_role = Some ''system'',
               m_content = Text (system_text pretty (config request)),
               m_tool_calls = None, m_tool_call_id = None \<rparr>])
     @ convertContents stringify clock (contentArray (contents request))
   \<and> (\<forall>c schema.
         config request = Some c \<and> responseMimeType c = Some ''application/json''
         \<and> responseJsonSchema c = Some schema \<and> js_truthy schema \<longrightarrow>
           system_text pretty (config request) =
             instruction_of c
             @ (if instruction_of c = [] then [] else ''\<newline>\<newline>'')
             @ ''IMPORTANT: You must respond with valid JSON that follows this exact schema:\<newline>''
             @ pretty schema
             @ ''\<newline>\<newline>Return only the JSON object, no additional text or markdown formatting.''
           \<and> req_messages (convertToOpenAIRequest model stringify pretty clock request stream) =
               \<lparr> m_role = Some ''system'',
                 m_content = Text (system_text pretty (config request)),
                 m_tool_calls = None, m_tool_call_id = None \<rparr>
               # convertContents stringify clock (contentArray (contents request))
           \<and> (instruction_of c = [] \<longrightarrow>
                req_messages (convertToOpenAIRequest model stringify pretty clock request stream) =
                  \<lparr> m_role = Some ''system'',
                    m_content = Text
                      (''IMPORTANT: You must respond with valid JSON that follows this exact schema:\<newline>''
                       @ pretty schema
                       @ ''\<newline>\<newline>Return only the JSON object, no additional text or markdown formatting.''),
                    m_tool_calls = None, m_tool_call_id = None \<rparr>
                  # convertContents stringify clock (contentArray (contents request)))
           \<and> ((\<forall>turn\<in>set (contentArray (contents request)). c_role turn \<noteq> Some ''system'') \<longrightarrow>
                filter (\<lambda>m. m_role m = Some ''system'')
                  (req_messages (convertToOpenAIRequest model stringify pretty clock request stream))
                = [\<lparr> m_role = Some ''system'',
                     m_content = Text (system_text pretty (config request)),
                     m_tool_calls = None, m_tool_call_id = None \<rparr>]))"
proof (intro conjI allI impI)
  show "req_messages (convertToOpenAIRequest model stringify pretty clock request stream) =
     (if system_text pretty (config request) = [] then []
      else [\<lparr> m_role = Some ''system'',
               m_content = Text (system_text pretty (config request)),
               m_tool_calls = None, m_tool_call_id = None \<rparr>])
     @ convertContents stringify clock (contentArray (contents request))"
    by (simp add: convertToOpenAIRequest_def text_message_def Let_def)
next
  fix c schema
  assume a: "config request = Some c \<and> responseMimeType c = Some ''application/json''
             \<and> responseJsonSchema c = Some schema \<and> js_truthy schema"
  then have sys: "system_text pretty (config request) =
                    instruction_of c @ jsonInstruction pretty (instruction_of c) schema"
    by (simp add: system_text_with_schema)
  then show "system_text pretty (config request) =
             instruction_of c
             @ (if instruction_of c = [] then [] else ''\<newline>\<newline>'')
             @ ''IMPORTANT: You must respond with valid JSON that follows this exact schema:\<newline>''
             @ pretty schema
             @ ''\<newline>\<newline>Return only the JSON object, no additional text or markdown formatting.''"
    by (simp add: jsonInstruction_def)
  from sys have ne: "system_text pretty (config request) \<noteq> []"
    by (simp add: jsonInstruction_def)
  then show "req_messages (convertToOpenAIRequest model stringify pretty clock request stream) =
               \<lparr> m_role = Some ''system'',
                 m_content = Text (system_text pretty (config request)),
                 m_tool_calls = None, m_tool_call_id = None \<rparr>
               # convertContents stringify clock (contentArray (contents request))"
    by (simp add: convertToOpenAIRequest_def text_message_def Let_def)
  assume "instruction_of c = []"
  with sys have "system_text pretty (config request) =
      ''IMPORTANT: You must respond with valid JSON that follows this exact schema:\<newline>''
       @ pretty schema
       @ ''\<newline>\<newline>Return only the JSON object, no additional text or markdown formatting.''"
    by (simp add: jsonInstruction_def)
  with ne show "req_messages (convertToOpenAIRequest model stringify pretty clock request stream) =
                  \<lparr> m_role = Some ''system'',
                    m_content = Text
                      (''IMPORTANT: You must respond with valid JSON that follows this exact schema:\<newline>''
                       @ pretty schema
                       @ ''\<newline>\<newline>Return only the JSON object, no additional text or markdown formatting.''),
                    m_tool_calls = None, m_tool_call_id = None \<rparr>
                  # convertContents stringify clock (contentArray (contents request))"
    by (simp add: convertToOpenAIRequest_def text_message_def Let_def)
next
  fix c schema
  assume a: "config request = Some c \<and> responseMimeType c = Some ''application/json''
             \<and> responseJsonSchema c = Some schema \<and> js_truthy schema"
    and plain: "\<forall>turn\<in>set (contentArray (contents request)). c_role turn \<noteq> Some ''system''"
  from a have "system_text pretty (config request) =
                 instruction_of c @ jsonInstruction pretty (instruction_of c) schema"
    by (simp add: system_text_with_schema)
  then have ne: "system_text pretty (config request) \<noteq> []"
    by (simp add: jsonInstruction_def)
  from plain have "filter (\<lambda>m. m_role m = Some ''system'')
                     (convertContents stringify clock (contentArray (contents request))) = []"
    by (simp add: convertContents_def convertContents_no_system)
  with ne show "filter (\<lambda>m. m_role m = Some ''system'')
                  (req_messages (convertToOpenAIRequest model stringify pretty clock request stream))
                = [\<lparr> m_role = Some ''system'',
                     m_content = Text (system_text pretty (config request)),
                     m_tool_calls = None, m_tool_call_id = None \<rparr>]"
    by (simp add: convertToOpenAIRequest_def text_message_def Let_def)
qed


theorem json_schema_instruction_witness:
  \<open>config schema_request =
     Some \<lparr> systemInstruction = None,
            responseMimeType = Some ''application/json'',
            responseJsonSchema = Some (JObject [(''type'', JString ''object'')]),
            temperature = None, topP = None, tools = None \<rparr>
   \<and> js_truthy (JObject [(''type'', JString ''object'')])
   \<and> req_messages (convertToOpenAIRequest ''gpt-4o'' sample_stringify sample_pretty (\<lambda>i. 40 + i)
                     schema_request False) =
       [\<lparr> m_role = Some ''system'',
          m_content = Text
            (''IMPORTANT: You must respond with valid JSON that follows this exact schema:\<newline>''
             @ ''{\<newline>  "type": "object"\<newline>}''
             @ ''\<newline>\<newline>Return only the JSON object, no additional text or markdown formatting.''),
          m_tool_calls = None, m_tool_call_id = None \<rparr>,
        \<lparr> m_role = Some ''assistant'', m_content = Text ''ping'',
          m_tool_calls = None, m_tool_call_id = None \<rparr>,
        \<lparr> m_role = Some ''assistant'', m_content = Null,
          m_tool_calls = Some [\<lparr> tc_id = ''call_41'', tc_name = ''get_weather'',
                                  tc_arguments = ''{"city":"SF"}'' \<rparr>],
          m_tool_call_id = None \<rparr>]\<close>
proof -
  have forty_one: "decimal 41 = ''41''"
    by (simp add: decimal.simps)
  have turns: \<open>convertContents sample_stringify (\<lambda>i. 40 + i) (contentArray (contents schema_request)) =
       [\<lparr> m_role = Some ''assistant'', m_content = Text ''ping'',
          m_tool_calls = None, m_tool_call_id = None \<rparr>,
        \<lparr> m_role = Some ''assistant'', m_content = Null,
          m_tool_calls = Some [\<lparr> tc_id = ''call_41'', tc_name = ''get_weather'',
                                  tc_arguments = ''{"city":"SF"}'' \<rparr>],
          m_tool_call_id = None \<rparr>]\<close>
    by (simp add: schema_request_def convertContents_def enumerate_eq_zip
          text_turn_def call_turn_def convertContentToOpenAIMessage_def first_with_def
          text_part_def call_part_def file_part_def text_message_def call_message_def
          json_or_def sample_stringify_def forty_one upt_rec)
  have asks: "config schema_request =
                 Some \<lparr> systemInstruction = None,
                        responseMimeType = Some ''application/json'',
                        responseJsonSchema = Some (JObject [(''type'', JString ''object'')]),
                        temperature = None, topP = None, tools = None \<rparr>
               \<and> responseMimeType \<lparr> systemInstruction = None,
                        responseMimeType = Some ''application/json'',
                        responseJsonSchema = Some (JObject [(''type'', JString ''object'')]),
                        temperature = None, topP = None, tools = None \<rparr>
                   = Some ''application/json''
               \<and> responseJsonSchema \<lparr> systemInstruction = None,
                        responseMimeType = Some ''application/json'',
                        responseJsonSchema = Some (JObject [(''type'', JString ''object'')]),
                        temperature = None, topP = None, tools = None \<rparr>
                   = Some (JObject [(''type'', JString ''object'')])
               \<and> js_truthy (JObject [(''type'', JString ''object'')])"
    by (simp add: schema_request_def)
  from json_schema_instruction
         [of "''gpt-4o''" sample_stringify sample_pretty "\<lambda>i. 40 + i" schema_request False,
          THEN conjunct2, rule_format, OF asks]
  show ?thesis
    by (simp add: turns asks instruction_of_def sample_pretty_def)
qed

text \<open>
  The claim as stated fails on a request with a schema, no system instruction and a turn
  of role \<open>system\<close>: the wire request has two system messages.
\<close>

theorem json_schema_instruction_counterexample:
  \<open>config system_turn_request =
     Some \<lparr> systemInstruction = None,
            responseMimeType = Some ''application/json'',
            responseJsonSchema = Some (JObject [(''type'', JString ''object'')]),
            temperature = None, topP = None, tools = None \<rparr>
   \<and> req_messages (convertToOpenAIRequest ''gpt-4o'' sample_stringify sample_pretty (\<lambda>i. 40 + i)
                     system_turn_request False) =
       [\<lparr> m_role = Some ''system'',
          m_content = Text
            (''IMPORTANT: You must respond with valid JSON that follows this exact schema:\<newline>''
             @ ''{\<newline>  "type": "object"\<newline>}''
             @ ''\<newline>\<newline>Return only the JSON object, no additional text or markdown formatting.''),
          m_tool_calls = None, m_tool_call_id = None \<rparr>,
        \<lparr> m_role = Some ''system'', m_content = Text ''Be brief'',
          m_tool_calls = None, m_tool_call_id = None \<rparr>]\<close>
  by (simp add: system_turn_request_def system_turn_def convertToOpenAIRequest_def
        system_text_def jsonInstruction_def sample_pretty_def convertContents_def
        enumerate_eq_zip convertContentToOpenAIMessage_def first_with_def text_part_def
        text_message_def Let_def)

lemma str_or_truthy: "str_truthy x \<Longrightarrow> str_or x d = the x"
  by (cases x) auto

lemma convertContent_clock:
  "\<not> synthesizes_id content \<Longrightarrow>
     convertContentToOpenAIMessage stringify now content
       = convertContentToOpenAIMessage stringify now' content"
  by (auto simp: synthesizes_id_def convertContentToOpenAIMessage_def call_message_def Let_def
             str_or_truthy
           split: option.splits)

lemma convertContent_erased:
  "map_option erase_call_ids (convertContentToOpenAIMessage stringify now content)
     = map_option erase_call_ids (convertContentToOpenAIMessage stringify now' content)"
  by (simp add: convertContentToOpenAIMessage_def call_message_def erase_call_ids_def Let_def
           split: option.splits)

lemma map_filter_enumerate_clock:
  "(\<forall>i<length cs. synthesizes_id (cs ! i) \<longrightarrow> clock (n + i) = clock' (n + i)) \<Longrightarrow>
     List.map_filter (\<lambda>(i, content). convertContentToOpenAIMessage stringify (clock i) content)
       (enumerate n cs)
     = List.map_filter (\<lambda>(i, content). convertContentToOpenAIMessage stringify (clock' i) content)
         (enumerate n cs)"
proof (induction cs arbitrary: n)
  case Nil
  then show ?case by simp
next
  case (Cons c cs)
  have head: "convertContentToOpenAIMessage stringify (clock n) c
                = convertContentToOpenAIMessage stringify (clock' n) c"
  proof (cases "synthesizes_id c")
    case True
    with Cons.prems have "clock n = clock' n" by auto
    then show ?thesis by simp
  next
    case False
    then show ?thesis by (rule convertContent_clock)
  qed
  have "\<forall>i<length cs. synthesizes_id (cs ! i) \<longrightarrow> clock (Suc n + i) = clock' (Suc n + i)"
    using Cons.prems by auto
  then have tail: "List.map_filter (\<lambda>(i, content). convertContentToOpenAIMessage stringify (clock i) content)
                     (enumerate (Suc n) cs)
                   = List.map_filter (\<lambda>(i, content). convertContentToOpenAIMessage stringify (clock' i) content)
                       (enumerate (Suc n) cs)"
    by (rule Cons.IH)
  show ?case
    by (simp add: head tail split: option.splits)
qed

lemma map_filter_enumerate_erased:
  "map erase_call_ids
     (List.map_filter (\<lambda>(i, content). convertContentToOpenAIMessage stringify (clock i) content)
        (enumerate n cs))
   = map erase_call_ids
       (List.map_filter (\<lambda>(i, content). convertContentToOpenAIMessage stringify (clock' i) content)
          (enumerate n cs))"
proof (induction cs arbitrary: n)
  case Nil
  then show ?case by simp
next
  case (Cons c cs)
  note head = convertContent_erased [of stringify "clock n" c "clock' n"]
  note tail = Cons.IH [of "Suc n"]
  show ?case
    by (cases "convertContentToOpenAIMessage stringify (clock n) c";
        cases "convertContentToOpenAIMessage stringify (clock' n) c")
       (use head tail in simp_all)
qed

text \<open>
  C9. The translation is a function of the request, the streaming flag and the clock,
  and the clock is used for synthesized call ids only: two translations of one request
  agree once the ids of the tool calls are left out of the comparison, whatever the two
  clocks read, and they are identical when the clocks agree at the turns that synthesize
  an id, so in particular under one stubbed clock.
\<close>

theorem translation_deterministic:
  "erase_ids (convertToOpenAIRequest model stringify pretty clock request stream)
     = erase_ids (convertToOpenAIRequest model stringify pretty clock' request stream)
   \<and> ((\<forall>i<length (contentArray (contents request)).
          synthesizes_id (contentArray (contents request) ! i) \<longrightarrow> clock i = clock' i) \<longrightarrow>
        convertToOpenAIRequest model stringify pretty clock request stream
          = convertToOpenAIRequest model stringify pretty clock' request stream)"
proof (intro conjI impI)
  show "erase_ids (convertToOpenAIRequest model stringify pretty clock request stream)
          = erase_ids (convertToOpenAIRequest model stringify pretty clock' request stream)"
    using map_filter_enumerate_erased [of stringify clock 0 "contentArray (contents request)" clock']
    by (simp add: erase_ids_def convertToOpenAIRequest_def convertContents_def Let_def)
next
  assume "\<forall>i<length (contentArray (contents request)).
            synthesizes_id (contentArray (contents request) ! i) \<longrightarrow> clock i = clock' i"
  then have "convertContents stringify clock (contentArray (contents request))
               = convertContents stringify clock' (contentArray (contents request))"
    using map_filter_enumerate_clock [of "contentArray (contents request)" clock 0 clock' stringify]
    by (simp add: convertContents_def)
  then show "convertToOpenAIRequest model stringify pretty clock request stream
               = convertToOpenAIRequest model stringify pretty clock' request stream"
    by (simp add: convertToOpenAIRequest_def)
qed

theorem translation_deterministic_witness:
  "erase_ids (convertToOpenAIRequest ''gpt-4o'' sample_stringify sample_pretty (\<lambda>i. 40 + i)
                schema_request False)
     = erase_ids (convertToOpenAIRequest ''gpt-4o'' sample_stringify sample_pretty (\<lambda>i. 90 + i)
                    schema_request False)
   \<and> convertToOpenAIRequest ''gpt-4o'' sample_stringify sample_pretty (\<lambda>i. 40 + i)
         schema_request False
       = convertToOpenAIRequest ''gpt-4o'' sample_stringify sample_pretty
           (\<lambda>i. if i = 1 then 41 else 7) schema_request False"
proof -
  have turns: "contentArray (contents schema_request) = [text_turn, call_turn]"
    by (simp add: schema_request_def text_turn_def call_turn_def)
  have plain: "\<not> synthesizes_id text_turn"
    by (simp add: synthesizes_id_def text_turn_def first_with_def text_part_def file_part_def)
  have agree: "\<forall>i<length (contentArray (contents schema_request)).
                 synthesizes_id (contentArray (contents schema_request) ! i) \<longrightarrow>
                 (\<lambda>i. 40 + i) i = (\<lambda>i. if i = 1 then 41 else 7) i"
    using plain by (auto simp: turns less_Suc_eq)
  from translation_deterministic
         [of "''gpt-4o''" sample_stringify sample_pretty "\<lambda>i. 40 + i" schema_request False
             "\<lambda>i. 90 + i", THEN conjunct1]
       translation_deterministic
         [of "''gpt-4o''" sample_stringify sample_pretty "\<lambda>i. 40 + i" schema_request False
             "\<lambda>i. if i = 1 then 41 else 7", THEN conjunct2, THEN mp, OF agree]
  show ?thesis by simp
qed


subsection \<open>The streaming reconstructor\<close>

lemma applyToolCallDelta_arguments:
  "str_or (acc_arguments (applyToolCallDelta fragment call)) []
     = str_or (acc_arguments call) [] @ str_or (tcd_arguments fragment) []"
  by (cases "tcd_arguments fragment")
     (simp_all add: applyToolCallDelta_def Let_def)

lemma arguments_at_Nil: "arguments_at index [] = []"
  by (simp add: arguments_at_def)

lemma arguments_at_Cons:
  "arguments_at index ((i, call) # calls)
     = (if i = index then str_or (acc_arguments call) [] else arguments_at index calls)"
  by (simp add: arguments_at_def)

lemma arguments_at_update_call:
  "arguments_at index (update_call (tcd_index fragment) (applyToolCallDelta fragment) calls)
     = arguments_at index calls
       @ (if tcd_index fragment = index then str_or (tcd_arguments fragment) [] else [])"
proof (induction calls)
  case Nil
  show ?case
    using applyToolCallDelta_arguments [of fragment empty_call]
    by (simp add: arguments_at_Nil arguments_at_Cons empty_call_def)
next
  case (Cons entry calls)
  obtain i call where entry: "entry = (i, call)" by (cases entry)
  show ?case
    using Cons.IH applyToolCallDelta_arguments [of fragment call]
    by (cases "tcd_index fragment = index") (simp_all add: entry arguments_at_Cons)
qed

lemma arguments_at_foldl:
  "arguments_at index
     (foldl (\<lambda>calls fragment. update_call (tcd_index fragment) (applyToolCallDelta fragment) calls)
        calls fragments)
   = arguments_at index calls
     @ concat (map (\<lambda>fragment. str_or (tcd_arguments fragment) [])
                 (filter (\<lambda>fragment. tcd_index fragment = index) fragments))"
  by (induction fragments arbitrary: calls) (simp_all add: arguments_at_update_call)


text \<open>
  C1. The three chunks of the example, each carrying one fragment of index 0 (the id and
  the name, then two pieces of the argument string, the last with the finish reason
  \<open>tool_calls\<close>), yield exactly one response, at the third chunk, with exactly one
  function-call part: id \<open>call_1\<close>, name \<open>get_weather\<close>, and the arguments parsed from
  the concatenation of the two pieces. In general the argument string accumulated for an
  index is the concatenation, in arrival order, of the argument fragments of that index.
\<close>

theorem stream_reconstruction:
  assumes \<open>parse ''{"city": "SF"}'' = Some (JObject [(''city'', JString ''SF'')])\<close>
  shows \<open>convertFromOpenAIStream parse entropy
           [fragment_chunk i1 \<lparr> tcd_index = 0, tcd_id = Some ''call_1'',
                                tcd_name = Some ''get_weather'', tcd_arguments = None \<rparr> None,
            fragment_chunk i2 \<lparr> tcd_index = 0, tcd_id = None, tcd_name = None,
                                tcd_arguments = Some ''{"city":'' \<rparr> None,
            fragment_chunk i3 \<lparr> tcd_index = 0, tcd_id = None, tcd_name = None,
                                tcd_arguments = Some '' "SF"}'' \<rparr> (Some ''tool_calls'')]
         = [\<lparr> candidates =
                [\<lparr> cand_content =
                     \<lparr> c_role = Some ''model'',
                       c_parts = Some [call_part ''call_1'' ''get_weather''
                                         (JObject [(''city'', JString ''SF'')])] \<rparr>,
                   cand_finishReason = Some STOP,
                   cand_index = i3 \<rparr>],
              usageMetadata = None,
              functionCalls =
                Some [\<lparr> fc_id = Some ''call_1'', fc_name = Some ''get_weather'',
                        fc_args = Some (JObject [(''city'', JString ''SF'')]) \<rparr>] \<rparr>]
       \<and> (\<forall>index calls fragments.
            arguments_at index (currentToolCalls
              (accumulateToolCalls fragments
                 \<lparr> currentFunctionCall = legacy, currentToolCalls = calls,
                   hasActiveToolCalls = active, readings = k \<rparr>))
            = arguments_at index calls
              @ concat (map (\<lambda>fragment. str_or (tcd_arguments fragment) [])
                          (filter (\<lambda>fragment. tcd_index fragment = index) fragments)))\<close>
proof (intro conjI allI)
  show \<open>convertFromOpenAIStream parse entropy
           [fragment_chunk i1 \<lparr> tcd_index = 0, tcd_id = Some ''call_1'',
                                tcd_name = Some ''get_weather'', tcd_arguments = None \<rparr> None,
            fragment_chunk i2 \<lparr> tcd_index = 0, tcd_id = None, tcd_name = None,
                                tcd_arguments = Some ''{"city":'' \<rparr> None,
            fragment_chunk i3 \<lparr> tcd_index = 0, tcd_id = None, tcd_name = None,
                                tcd_arguments = Some '' "SF"}'' \<rparr> (Some ''tool_calls'')]
         = [\<lparr> candidates =
                [\<lparr> cand_content =
                     \<lparr> c_role = Some ''model'',
                       c_parts = Some [call_part ''call_1'' ''get_weather''
                                         (JObject [(''city'', JString ''SF'')])] \<rparr>,
                   cand_finishReason = Some STOP,
                   cand_index = i3 \<rparr>],
              usageMetadata = None,
              functionCalls =
                Some [\<lparr> fc_id = Some ''call_1'', fc_name = Some ''get_weather'',
                        fc_args = Some (JObject [(''city'', JString ''SF'')]) \<rparr>] \<rparr>]\<close>
    using assms
    by (simp add: convertFromOpenAIStream_def processChunk_def fragment_chunk_def
          initial_state_def empty_call_def accumulate_def accumulateToolCalls_def
          applyToolCallDelta_def flush_due_def is_call_finish_def flushCalls_def
          finalizeFunctionCall_def push_call_def parse_arguments_def id_or_mint_def
          trailing_def make_response_def function_calls_def call_part_def mapFinishReason_def
          Let_def)
next
  fix index calls fragments
  show "arguments_at index (currentToolCalls
              (accumulateToolCalls fragments
                 \<lparr> currentFunctionCall = legacy, currentToolCalls = calls,
                   hasActiveToolCalls = active, readings = k \<rparr>))
            = arguments_at index calls
              @ concat (map (\<lambda>fragment. str_or (tcd_arguments fragment) [])
                          (filter (\<lambda>fragment. tcd_index fragment = index) fragments))"
    by (simp add: accumulateToolCalls_def arguments_at_foldl)
qed

theorem stream_reconstruction_witness:
  \<open>convertFromOpenAIStream sample_parse sample_entropy
           [fragment_chunk 0 \<lparr> tcd_index = 0, tcd_id = Some ''call_1'',
                               tcd_name = Some ''get_weather'', tcd_arguments = None \<rparr> None,
            fragment_chunk 0 \<lparr> tcd_index = 0, tcd_id = None, tcd_name = None,
                               tcd_arguments = Some ''{"city":'' \<rparr> None,
            fragment_chunk 0 \<lparr> tcd_index = 0, tcd_id = None, tcd_name = None,
                               tcd_arguments = Some '' "SF"}'' \<rparr> (Some ''tool_calls'')]
         = [\<lparr> candidates =
                [\<lparr> cand_content =
                     \<lparr> c_role = Some ''model'',
                       c_parts = Some [call_part ''call_1'' ''get_weather''
                                         (JObject [(''city'', JString ''SF'')])] \<rparr>,
                   cand_finishReason = Some STOP,
                   cand_index = 0 \<rparr>],
              usageMetadata = None,
              functionCalls =
                Some [\<lparr> fc_id = Some ''call_1'', fc_name = Some ''get_weather'',
                        fc_args = Some (JObject [(''city'', JString ''SF'')]) \<rparr>] \<rparr>]\<close>
proof -
  have parsed: \<open>sample_parse ''{"city": "SF"}'' = Some (JObject [(''city'', JString ''SF'')])\<close>
    by (simp add: sample_parse_def)
  from stream_reconstruction
         [where parse = sample_parse and entropy = sample_entropy
            and ?i1.0 = 0 and ?i2.0 = 0 and ?i3.0 = 0,
          OF parsed, THEN conjunct1]
  show ?thesis .
qed


lemma push_call_reconstructs:
  "reconstructs parse (wid, name, arguments) (fst (push_call parse entropy k wid name arguments))"
  by (cases wid; cases arguments)
     (auto simp: reconstructs_def push_call_def parse_arguments_def args_or_empty_def
             id_or_mint_def mint_def call_part_def
           split: option.splits)


lemma finalizeToolCalls_reconstructs:
  "list_all2 (reconstructs parse)
     (map (\<lambda>call. (acc_id call, str_or (acc_name call) [], acc_arguments call))
        (filter (\<lambda>call. str_truthy (acc_name call)) (map snd calls)))
     (fst (finalizeToolCalls parse entropy k calls))"
proof (induction calls arbitrary: k)
  case Nil
  then show ?case by simp
next
  case (Cons entry calls)
  obtain i call where entry: "entry = (i, call)" by (cases entry)
  show ?case
    using Cons.IH by (simp add: entry Let_def push_call_reconstructs)
qed

lemma remainingParts_reconstructs:
  "list_all2 (reconstructs parse) (pending_calls st) (remainingParts parse entropy st)"
  by (cases "str_truthy (acc_name (currentFunctionCall st))")
     (simp_all add: pending_calls_def remainingParts_def finalizeFunctionCall_def Let_def
        push_call_reconstructs finalizeToolCalls_reconstructs)

lemma flushCalls_parts:
  "fst (flushCalls parse entropy reason st) = remainingParts parse entropy st"
  by (simp add: flushCalls_def remainingParts_def Let_def)



lemma accumulate_active:
  "hasActiveToolCalls (accumulate entropy delta st)
     = (hasActiveToolCalls st \<or> d_function_call delta \<noteq> None \<or> d_tool_calls delta \<noteq> None)"
  by (simp add: accumulate_def accumulateFunctionCall_def accumulateToolCalls_def Let_def
        split: option.splits)

lemma flushCalls_active:
  "hasActiveToolCalls (snd (flushCalls parse entropy reason st))
     = (hasActiveToolCalls st \<and> \<not> is_call_finish reason)"
  by (simp add: flushCalls_def Let_def)

lemma processChunk_active:
  "\<not> finishes_calls chunk \<Longrightarrow>
     hasActiveToolCalls (snd (processChunk parse entropy st chunk))
       = (hasActiveToolCalls st \<or> carries_calls chunk)"
  by (cases "chunk_choices chunk")
     (auto simp: processChunk_def finishes_calls_def carries_calls_def Let_def
             accumulate_active flushCalls_active)

lemma streamLoop_active:
  "\<forall>chunk\<in>set stream. \<not> finishes_calls chunk \<Longrightarrow>
     hasActiveToolCalls (snd (streamLoop parse entropy st stream))
       = (hasActiveToolCalls st \<or> (\<exists>chunk\<in>set stream. carries_calls chunk))"
proof (induction stream arbitrary: st)
  case Nil
  then show ?case by simp
next
  case (Cons chunk stream)
  then have "hasActiveToolCalls (snd (streamLoop parse entropy
                 (snd (processChunk parse entropy st chunk)) stream))
             = (hasActiveToolCalls (snd (processChunk parse entropy st chunk))
                \<or> (\<exists>chunk\<in>set stream. carries_calls chunk))"
    by simp
  with Cons.prems show ?case
    by (simp add: Let_def processChunk_active)
qed

lemma streamLoop_append:
  "streamLoop parse entropy st (before @ after) =
     (fst (streamLoop parse entropy st before)
      @ fst (streamLoop parse entropy (snd (streamLoop parse entropy st before)) after),
      snd (streamLoop parse entropy (snd (streamLoop parse entropy st before)) after))"
  by (induction before arbitrary: st) (simp_all add: Let_def)

lemma str_or_falsy: "\<not> str_truthy x \<Longrightarrow> str_or x d = d"
  by (cases x) auto

lemma last_truthy_Nil: "last_truthy [] = None"
  by (simp add: last_truthy_def)

lemma last_truthy_snoc:
  "last_truthy (xs @ [x]) = (if str_truthy x then x else last_truthy xs)"
  by (simp add: last_truthy_def)

lemma last_truthy_Cons:
  "last_truthy (x # xs) =
     (case last_truthy xs of None \<Rightarrow> (if str_truthy x then x else None) | Some y \<Rightarrow> Some y)"
proof (cases "filter str_truthy xs = []")
  case True
  then show ?thesis by (simp add: last_truthy_def)
next
  case False
  then have "last (filter str_truthy xs) \<in> set (filter str_truthy xs)"
    by (rule last_in_set)
  then have "str_truthy (last (filter str_truthy xs))"
    by simp
  then obtain y where "last (filter str_truthy xs) = Some y"
    by (cases "last (filter str_truthy xs)") simp_all
  with False show ?thesis by (simp add: last_truthy_def)
qed

lemma joined_Nil: "joined [] = None"
  by (simp add: joined_def)

lemma str_or_joined: "str_or (joined xs) [] = concat (map (\<lambda>x. str_or x []) xs)"
proof (cases "filter str_truthy xs = []")
  case True
  then have "\<forall>x\<in>set xs. str_or x [] = []"
    by (auto simp: filter_empty_conv str_or_falsy)
  with True show ?thesis by (simp add: joined_def)
next
  case False
  then show ?thesis by (simp add: joined_def)
qed

lemma joined_snoc:
  "joined (xs @ [x]) =
     (if str_truthy x then Some (str_or (joined xs) [] @ str_or x []) else joined xs)"
  by (simp add: str_or_joined) (simp add: joined_def str_or_falsy)

lemma assemble_call_Nil: "assemble_call [] = empty_call"
  by (simp add: assemble_call_def empty_call_def last_truthy_Nil joined_Nil)

lemma assemble_call_snoc:
  "assemble_call (fragments @ [fragment]) = applyToolCallDelta fragment (assemble_call fragments)"
  by (simp add: assemble_call_def applyToolCallDelta_def last_truthy_snoc joined_snoc Let_def)

lemma update_call_keyed:
  assumes "distinct keys"
  shows "update_call index f (map (\<lambda>k. (k, h k)) keys) =
           (if index \<in> set keys
            then map (\<lambda>k. (k, if k = index then f (h k) else h k)) keys
            else map (\<lambda>k. (k, h k)) keys @ [(index, f empty_call)])"
  using assms by (induction keys) auto

lemma first_seen_snoc:
  "rev (remdups (rev (xs @ [x]))) =
     (if x \<in> set xs then rev (remdups (rev xs)) else rev (remdups (rev xs)) @ [x])"
  by simp

lemma assemble_Nil: "assemble [] = []"
  by (simp add: assemble_def)

lemma assemble_snoc:
  "assemble (fragments @ [fragment]) =
     update_call (tcd_index fragment) (applyToolCallDelta fragment) (assemble fragments)"
proof -
  let ?keys = "rev (remdups (rev (map tcd_index fragments)))"
  let ?h = "\<lambda>k. assemble_call (filter (\<lambda>g. tcd_index g = k) fragments)"
  have keys: "distinct ?keys" "set ?keys = tcd_index ` set fragments"
    by simp_all
  have old: "assemble fragments = map (\<lambda>k. (k, ?h k)) ?keys"
    by (simp add: assemble_def)
  show ?thesis
  proof (cases "tcd_index fragment \<in> set ?keys")
    case True
    then have "assemble (fragments @ [fragment]) =
                 map (\<lambda>k. (k, if k = tcd_index fragment
                               then applyToolCallDelta fragment (?h k) else ?h k)) ?keys"
      using keys(2) by (auto simp: assemble_def assemble_call_snoc)
    with True keys(1) show ?thesis
      by (simp add: old update_call_keyed)
  next
    case False
    with keys(2) have "tcd_index fragment \<notin> tcd_index ` set fragments"
      by simp
    then have "\<forall>g\<in>set fragments. tcd_index g \<noteq> tcd_index fragment"
      by (metis imageI)
    then have none: "filter (\<lambda>g. tcd_index g = tcd_index fragment) fragments = []"
      by (simp add: filter_empty_conv)
    from False have "assemble (fragments @ [fragment]) =
                 map (\<lambda>k. (k, ?h k)) ?keys
                 @ [(tcd_index fragment, applyToolCallDelta fragment empty_call)]"
      using keys(2) assemble_call_snoc [of "[]" fragment]
      by (auto simp: assemble_def none assemble_call_Nil)
    with False keys(1) show ?thesis
      by (simp add: old update_call_keyed)
  qed
qed

lemma foldl_assemble:
  "foldl (\<lambda>calls fragment. update_call (tcd_index fragment) (applyToolCallDelta fragment) calls)
     [] fragments = assemble fragments"
  by (induction fragments rule: rev_induct) (simp_all add: assemble_Nil assemble_snoc)

lemma accumulate_tool_calls:
  "currentToolCalls (accumulate entropy delta st) =
     foldl (\<lambda>calls fragment. update_call (tcd_index fragment) (applyToolCallDelta fragment) calls)
       (currentToolCalls st)
       (case d_tool_calls delta of None \<Rightarrow> [] | Some fragments \<Rightarrow> fragments)"
  by (simp add: accumulate_def accumulateFunctionCall_def accumulateToolCalls_def Let_def
        split: option.splits)

lemma accumulate_legacy_name:
  "acc_name (currentFunctionCall (accumulate entropy delta st)) =
     (case d_function_call delta of
        None \<Rightarrow> acc_name (currentFunctionCall st)
      | Some fragment \<Rightarrow>
          if str_truthy (fcd_name fragment) then fcd_name fragment
          else acc_name (currentFunctionCall st))"
  by (simp add: accumulate_def accumulateFunctionCall_def accumulateToolCalls_def Let_def
        split: option.splits)

lemma accumulate_legacy_arguments:
  "str_or (acc_arguments (currentFunctionCall (accumulate entropy delta st))) [] =
     str_or (acc_arguments (currentFunctionCall st)) []
     @ (case d_function_call delta of
          None \<Rightarrow> []
        | Some fragment \<Rightarrow> str_or (fcd_arguments fragment) [])"
  by (simp add: accumulate_def accumulateFunctionCall_def accumulateToolCalls_def Let_def
        str_or_falsy split: option.splits)

lemma processChunk_no_flush:
  assumes "\<not> silent chunk" and "\<not> finishes_calls chunk"
  shows "snd (processChunk parse entropy st chunk) =
           (case chunk_choices chunk of
              [] \<Rightarrow> st
            | choice # _ \<Rightarrow> accumulate entropy (sc_delta choice) st)"
  using assms
  by (cases "chunk_choices chunk")
     (auto simp: processChunk_def silent_def finishes_calls_def carries_calls_def
        flush_due_def Let_def)

lemma tool_fragments_Nil: "tool_fragments [] = []"
  by (simp add: tool_fragments_def)

lemma tool_fragments_Cons:
  "tool_fragments (chunk # stream) =
     (case chunk_choices chunk of
        [] \<Rightarrow> []
      | choice # _ \<Rightarrow>
         (case d_tool_calls (sc_delta choice) of None \<Rightarrow> [] | Some fragments \<Rightarrow> fragments))
     @ tool_fragments stream"
  by (simp add: tool_fragments_def)

lemma legacy_fragments_Nil: "legacy_fragments [] = []"
  by (simp add: legacy_fragments_def)

lemma legacy_fragments_Cons:
  "legacy_fragments (chunk # stream) =
     (case chunk_choices chunk of
        [] \<Rightarrow> []
      | choice # _ \<Rightarrow>
         (case d_function_call (sc_delta choice) of None \<Rightarrow> [] | Some fragment \<Rightarrow> [fragment]))
     @ legacy_fragments stream"
  by (simp add: legacy_fragments_def split: list.splits option.splits)

lemma streamLoop_tool_calls:
  assumes "\<forall>chunk\<in>set tail. \<not> silent chunk \<and> \<not> finishes_calls chunk"
  shows "currentToolCalls (snd (streamLoop parse entropy st tail)) =
           foldl (\<lambda>calls fragment. update_call (tcd_index fragment) (applyToolCallDelta fragment) calls)
             (currentToolCalls st) (tool_fragments tail)"
  using assms
proof (induction tail arbitrary: st)
  case Nil
  then show ?case by (simp add: tool_fragments_Nil)
next
  case (Cons chunk tail)
  note hyp = Cons.IH and prems = Cons.prems
  from prems have step: "snd (processChunk parse entropy st chunk) =
           (case chunk_choices chunk of
              [] \<Rightarrow> st
            | choice # _ \<Rightarrow> accumulate entropy (sc_delta choice) st)"
    by (simp add: processChunk_no_flush)
  from prems have rest: "\<forall>chunk\<in>set tail. \<not> silent chunk \<and> \<not> finishes_calls chunk"
    by simp
  show ?case
  proof (cases "chunk_choices chunk")
    case Nil
    with step have "snd (processChunk parse entropy st chunk) = st" by simp
    with hyp [OF rest, of st] Nil show ?thesis
      by (simp add: Let_def tool_fragments_Cons)
  next
    case (Cons choice others)
    with step have "snd (processChunk parse entropy st chunk)
                      = accumulate entropy (sc_delta choice) st"
      by simp
    with hyp [OF rest, of "accumulate entropy (sc_delta choice) st"] Cons show ?thesis
      by (simp add: Let_def tool_fragments_Cons accumulate_tool_calls)
  qed
qed

lemma streamLoop_legacy_name:
  assumes "\<forall>chunk\<in>set tail. \<not> silent chunk \<and> \<not> finishes_calls chunk"
  shows "acc_name (currentFunctionCall (snd (streamLoop parse entropy st tail))) =
           (case last_truthy (map fcd_name (legacy_fragments tail)) of
              None \<Rightarrow> acc_name (currentFunctionCall st)
            | Some name \<Rightarrow> Some name)"
  using assms
proof (induction tail arbitrary: st)
  case Nil
  then show ?case by (simp add: legacy_fragments_Nil last_truthy_Nil)
next
  case (Cons chunk tail)
  note hyp = Cons.IH and prems = Cons.prems
  from prems have step: "snd (processChunk parse entropy st chunk) =
           (case chunk_choices chunk of
              [] \<Rightarrow> st
            | choice # _ \<Rightarrow> accumulate entropy (sc_delta choice) st)"
    by (simp add: processChunk_no_flush)
  from prems have rest: "\<forall>chunk\<in>set tail. \<not> silent chunk \<and> \<not> finishes_calls chunk"
    by simp
  show ?case
  proof (cases "chunk_choices chunk")
    case Nil
    with step have "snd (processChunk parse entropy st chunk) = st" by simp
    with hyp [OF rest, of st] Nil show ?thesis
      by (simp add: Let_def legacy_fragments_Cons)
  next
    case (Cons choice others)
    with step have next_state: "snd (processChunk parse entropy st chunk)
                      = accumulate entropy (sc_delta choice) st"
      by simp
    show ?thesis
    proof (cases "d_function_call (sc_delta choice)")
      case None
      with hyp [OF rest, of "accumulate entropy (sc_delta choice) st"] next_state Cons
      show ?thesis
        by (simp add: Let_def legacy_fragments_Cons accumulate_legacy_name
              split: option.splits)
    next
      case (Some fragment)
      with hyp [OF rest, of "accumulate entropy (sc_delta choice) st"] next_state Cons
      show ?thesis
        by (cases "fcd_name fragment")
           (simp_all add: Let_def legacy_fragments_Cons accumulate_legacy_name last_truthy_Cons
              split: option.splits)
    qed
  qed
qed

lemma streamLoop_legacy_arguments:
  assumes "\<forall>chunk\<in>set tail. \<not> silent chunk \<and> \<not> finishes_calls chunk"
  shows "str_or (acc_arguments (currentFunctionCall (snd (streamLoop parse entropy st tail)))) [] =
           str_or (acc_arguments (currentFunctionCall st)) []
           @ concat (map (\<lambda>fragment. str_or (fcd_arguments fragment) []) (legacy_fragments tail))"
  using assms
proof (induction tail arbitrary: st)
  case Nil
  then show ?case by (simp add: legacy_fragments_Nil)
next
  case (Cons chunk tail)
  note hyp = Cons.IH and prems = Cons.prems
  from prems have step: "snd (processChunk parse entropy st chunk) =
           (case chunk_choices chunk of
              [] \<Rightarrow> st
            | choice # _ \<Rightarrow> accumulate entropy (sc_delta choice) st)"
    by (simp add: processChunk_no_flush)
  from prems have rest: "\<forall>chunk\<in>set tail. \<not> silent chunk \<and> \<not> finishes_calls chunk"
    by simp
  show ?case
  proof (cases "chunk_choices chunk")
    case Nil
    with step have "snd (processChunk parse entropy st chunk) = st" by simp
    with hyp [OF rest, of st] Nil show ?thesis
      by (simp add: Let_def legacy_fragments_Cons)
  next
    case (Cons choice others)
    with step have "snd (processChunk parse entropy st chunk)
                      = accumulate entropy (sc_delta choice) st"
      by simp
    with hyp [OF rest, of "accumulate entropy (sc_delta choice) st"] Cons show ?thesis
      by (cases "d_function_call (sc_delta choice)")
         (simp_all add: Let_def legacy_fragments_Cons accumulate_legacy_arguments)
  qed
qed


lemma processChunk_idle:
  assumes "\<not> hasActiveToolCalls st" and "\<not> carries_calls chunk"
  shows "snd (processChunk parse entropy st chunk) = st"
  using assms
  by (cases "chunk_choices chunk")
     (auto simp: processChunk_def carries_calls_def accumulate_def flush_due_def Let_def)

lemma streamLoop_idle:
  assumes "\<not> hasActiveToolCalls st" and "\<forall>chunk\<in>set stream. \<not> carries_calls chunk"
  shows "snd (streamLoop parse entropy st stream) = st"
  using assms
  by (induction stream arbitrary: st) (simp_all add: Let_def processChunk_idle)

lemma flushed_after_silence:
  assumes "\<forall>chunk\<in>set before. \<not> finishes_calls chunk"
    and "before = [] \<or> silent (last before)"
  shows "currentToolCalls (snd (streamLoop parse entropy initial_state before)) = []
         \<and> \<not> str_truthy
               (acc_name (currentFunctionCall (snd (streamLoop parse entropy initial_state before))))"
proof (cases before rule: rev_cases)
  case Nil
  then show ?thesis by (simp add: initial_state_def empty_call_def)
next
  case (snoc pre chunk)
  with assms have quiet: "silent chunk" and open_ended: "\<forall>chunk\<in>set pre. \<not> finishes_calls chunk"
    by simp_all
  let ?reached = "snd (streamLoop parse entropy initial_state pre)"
  have final: "snd (streamLoop parse entropy initial_state before)
                 = snd (processChunk parse entropy ?reached chunk)"
    by (simp add: snoc streamLoop_append Let_def)
  from quiet obtain choice others where choice: "chunk_choices chunk = choice # others"
    and no_legacy: "d_function_call (sc_delta choice) = None"
    and no_tools: "d_tool_calls (sc_delta choice) = None"
    by (cases "chunk_choices chunk") (auto simp: silent_def carries_calls_def)
  from no_legacy no_tools have same: "accumulate entropy (sc_delta choice) ?reached = ?reached"
    by (simp add: accumulate_def)
  show ?thesis
  proof (cases "hasActiveToolCalls ?reached")
    case True
    with choice no_legacy no_tools same
    have "snd (processChunk parse entropy ?reached chunk)
            = snd (flushCalls parse entropy (sc_finish_reason choice) ?reached)"
      by (simp add: processChunk_def flush_due_def Let_def)
    then show ?thesis
      by (simp add: final flushCalls_def Let_def empty_call_def)
  next
    case False
    with open_ended have "\<forall>chunk\<in>set pre. \<not> carries_calls chunk"
      by (simp add: streamLoop_active)
    then have start: "?reached = initial_state"
      by (simp add: streamLoop_idle initial_state_def)
    from quiet have "\<not> carries_calls chunk"
      by (simp add: silent_def)
    then have "snd (processChunk parse entropy initial_state chunk) = initial_state"
      by (simp add: processChunk_idle initial_state_def)
    with final start
    have "snd (streamLoop parse entropy initial_state before) = initial_state"
      by simp
    then show ?thesis
      unfolding \<open>snd (streamLoop parse entropy initial_state before) = initial_state\<close>
      by (simp add: initial_state_def empty_call_def)
  qed
qed

lemma reconstructs_anonymous:
  assumes "reconstructs parse (wid, name, arguments) part"
    and "str_or arguments [] = str_or arguments' []"
  shows "reconstructs parse (None, name, arguments') part"
  using assms by (auto simp: reconstructs_def split: option.splits)

lemma pending_calls_delivered:
  assumes tools: "currentToolCalls st = assemble (tool_fragments stream)"
    and name: "acc_name (currentFunctionCall st)
                 = last_truthy (map fcd_name (legacy_fragments stream))"
    and arguments: "str_or (acc_arguments (currentFunctionCall st)) []
                 = concat (map (\<lambda>fragment. str_or (fcd_arguments fragment) [])
                             (legacy_fragments stream))"
    and parts: "list_all2 (reconstructs parse) (pending_calls st) parts"
  shows "list_all2 (reconstructs parse) (delivered stream) parts"
proof -
  let ?weaker = "\<lambda>call call'. \<forall>part. reconstructs parse call' part \<longrightarrow> reconstructs parse call part"
  let ?indexed = "map (\<lambda>call. (acc_id call, str_or (acc_name call) [], acc_arguments call))
                    (filter (\<lambda>call. str_truthy (acc_name call))
                       (map snd (assemble (tool_fragments stream))))"
  let ?legacy = "if str_truthy (acc_name (currentFunctionCall st))
                 then [(acc_id (currentFunctionCall st),
                        str_or (acc_name (currentFunctionCall st)) [],
                        acc_arguments (currentFunctionCall st))]
                 else []"
  let ?stated = "if str_truthy (last_truthy (map fcd_name (legacy_fragments stream)))
      then [(None, str_or (last_truthy (map fcd_name (legacy_fragments stream))) [],
             Some (concat (map (\<lambda>fragment. str_or (fcd_arguments fragment) [])
                             (legacy_fragments stream))))]
      else []"
  have pending: "pending_calls st = ?legacy @ ?indexed"
    by (simp add: pending_calls_def tools)
  have "list_all2 ?weaker ?stated ?legacy"
    using name arguments by (auto intro: reconstructs_anonymous)
  moreover have "list_all2 ?weaker ?indexed ?indexed"
    by (rule list_all2_refl) simp
  ultimately have "list_all2 ?weaker (delivered stream) (pending_calls st)"
    unfolding pending delivered_def by (rule list_all2_appendI)
  from this parts show ?thesis
    by (rule list_all2_trans [rotated]) blast
qed

text \<open>
  C3. When no chunk carries a call finish reason and some chunk carries call fragments,
  the flag is still set when the stream ends. The output is then the responses of the
  chunks followed, when a named call is still accumulated, by exactly one trailing
  response with finish reason STOP and index 0 whose parts reconstruct the calls still
  accumulated, and by nothing when no part remains. The calls still accumulated are
  those of the fragments: when no chunk of the stream is silent, the parts of the trailing
  response reconstruct the calls that the stream delivers, legacy and indexed, and the
  accumulators hold the last name of the legacy fragments, their arguments joined, and
  the assembled indexed fragments; in general they hold the fragments that arrived after
  the last silent chunk, a silent chunk having emitted what was accumulated before it.
\<close>

theorem unterminated_stream_flush:
  assumes "\<forall>chunk\<in>set stream. \<not> finishes_calls chunk"
    and "\<exists>chunk\<in>set stream. carries_calls chunk"
  shows "convertFromOpenAIStream parse entropy stream =
           fst (streamLoop parse entropy initial_state stream)
           @ (if remainingParts parse entropy (snd (streamLoop parse entropy initial_state stream)) = []
              then []
              else [make_response
                      (remainingParts parse entropy
                         (snd (streamLoop parse entropy initial_state stream)))
                      (Some STOP) 0 None])
         \<and> list_all2 (reconstructs parse)
             (pending_calls (snd (streamLoop parse entropy initial_state stream)))
             (remainingParts parse entropy (snd (streamLoop parse entropy initial_state stream)))
         \<and> ((\<forall>chunk\<in>set stream. \<not> silent chunk) \<longrightarrow>
              list_all2 (reconstructs parse) (delivered stream)
                  (remainingParts parse entropy
                     (snd (streamLoop parse entropy initial_state stream)))
              \<and> currentToolCalls (snd (streamLoop parse entropy initial_state stream))
                = assemble (tool_fragments stream)
              \<and> acc_name (currentFunctionCall (snd (streamLoop parse entropy initial_state stream)))
                = last_truthy (map fcd_name (legacy_fragments stream))
              \<and> str_or (acc_arguments (currentFunctionCall
                           (snd (streamLoop parse entropy initial_state stream)))) []
                = concat (map (\<lambda>fragment. str_or (fcd_arguments fragment) [])
                            (legacy_fragments stream)))
         \<and> (\<forall>before tail.
              stream = before @ tail \<and> (before = [] \<or> silent (last before))
              \<and> (\<forall>chunk\<in>set tail. \<not> silent chunk) \<longrightarrow>
                currentToolCalls (snd (streamLoop parse entropy initial_state stream))
                  = assemble (tool_fragments tail)
                \<and> str_or (acc_name (currentFunctionCall
                             (snd (streamLoop parse entropy initial_state stream)))) []
                  = str_or (last_truthy (map fcd_name (legacy_fragments tail))) []
                \<and> str_or (acc_arguments (currentFunctionCall
                             (snd (streamLoop parse entropy initial_state stream)))) []
                  = str_or (acc_arguments (currentFunctionCall
                              (snd (streamLoop parse entropy initial_state before)))) []
                    @ concat (map (\<lambda>fragment. str_or (fcd_arguments fragment) [])
                                (legacy_fragments tail)))"
proof (intro conjI allI impI)
  from assms have "hasActiveToolCalls (snd (streamLoop parse entropy initial_state stream))"
    by (simp add: streamLoop_active)
  then show "convertFromOpenAIStream parse entropy stream =
           fst (streamLoop parse entropy initial_state stream)
           @ (if remainingParts parse entropy (snd (streamLoop parse entropy initial_state stream)) = []
              then []
              else [make_response
                      (remainingParts parse entropy
                         (snd (streamLoop parse entropy initial_state stream)))
                      (Some STOP) 0 None])"
    by (simp add: convertFromOpenAIStream_def trailing_def Let_def)
next
  show "list_all2 (reconstructs parse)
             (pending_calls (snd (streamLoop parse entropy initial_state stream)))
             (remainingParts parse entropy (snd (streamLoop parse entropy initial_state stream)))"
    by (rule remainingParts_reconstructs)
next
  fix before tail
  assume split: "stream = before @ tail \<and> (before = [] \<or> silent (last before))
              \<and> (\<forall>chunk\<in>set tail. \<not> silent chunk)"
  let ?reached = "snd (streamLoop parse entropy initial_state before)"
  from split have final: "snd (streamLoop parse entropy initial_state stream)
                            = snd (streamLoop parse entropy ?reached tail)"
    by (simp add: streamLoop_append)
  from split assms(1) have quiet: "\<forall>chunk\<in>set tail. \<not> silent chunk \<and> \<not> finishes_calls chunk"
    and open_ended: "\<forall>chunk\<in>set before. \<not> finishes_calls chunk"
    by auto
  from split open_ended have reached: "currentToolCalls ?reached = []"
    "\<not> str_truthy (acc_name (currentFunctionCall ?reached))"
    using flushed_after_silence [of before parse entropy] by simp_all
  show "currentToolCalls (snd (streamLoop parse entropy initial_state stream))
          = assemble (tool_fragments tail)"
    by (simp add: final streamLoop_tool_calls [OF quiet] reached(1) foldl_assemble)
  show "str_or (acc_name (currentFunctionCall
                  (snd (streamLoop parse entropy initial_state stream)))) []
          = str_or (last_truthy (map fcd_name (legacy_fragments tail))) []"
    using reached(2)
    by (simp add: final streamLoop_legacy_name [OF quiet] str_or_falsy split: option.splits)
  show "str_or (acc_arguments (currentFunctionCall
                  (snd (streamLoop parse entropy initial_state stream)))) []
          = str_or (acc_arguments (currentFunctionCall ?reached)) []
            @ concat (map (\<lambda>fragment. str_or (fcd_arguments fragment) [])
                        (legacy_fragments tail))"
    by (simp add: final streamLoop_legacy_arguments [OF quiet])
next
  assume "\<forall>chunk\<in>set stream. \<not> silent chunk"
  with assms(1) have quiet: "\<forall>chunk\<in>set stream. \<not> silent chunk \<and> \<not> finishes_calls chunk"
    by simp
  show tools: "currentToolCalls (snd (streamLoop parse entropy initial_state stream))
          = assemble (tool_fragments stream)"
    by (simp add: streamLoop_tool_calls [OF quiet] initial_state_def foldl_assemble)
  show name: "acc_name (currentFunctionCall (snd (streamLoop parse entropy initial_state stream)))
          = last_truthy (map fcd_name (legacy_fragments stream))"
    by (simp add: streamLoop_legacy_name [OF quiet] initial_state_def empty_call_def
          split: option.splits)
  show arguments: "str_or (acc_arguments (currentFunctionCall
                  (snd (streamLoop parse entropy initial_state stream)))) []
          = concat (map (\<lambda>fragment. str_or (fcd_arguments fragment) [])
                      (legacy_fragments stream))"
    by (simp add: streamLoop_legacy_arguments [OF quiet] initial_state_def empty_call_def)
  show "list_all2 (reconstructs parse) (delivered stream)
          (remainingParts parse entropy (snd (streamLoop parse entropy initial_state stream)))"
    using tools name arguments remainingParts_reconstructs
    by (rule pending_calls_delivered)
qed

theorem unterminated_stream_flush_witness:
  \<open>filter finishes_calls unfinished_stream = []
   \<and> filter carries_calls unfinished_stream = unfinished_stream
   \<and> convertFromOpenAIStream sample_parse sample_entropy unfinished_stream =
       [\<lparr> candidates =
            [\<lparr> cand_content =
                 \<lparr> c_role = Some ''model'',
                   c_parts = Some [call_part ''call_17_k30'' ''get_weather''
                                     (JObject [(''city'', JString ''SF'')])] \<rparr>,
               cand_finishReason = Some STOP,
               cand_index = 0 \<rparr>],
          usageMetadata = None,
          functionCalls =
            Some [\<lparr> fc_id = Some ''call_17_k30'', fc_name = Some ''get_weather'',
                    fc_args = Some (JObject [(''city'', JString ''SF'')]) \<rparr>] \<rparr>]
   \<and> filter finishes_calls unfinished_legacy_stream = []
   \<and> filter silent unfinished_legacy_stream = []
   \<and> filter carries_calls unfinished_legacy_stream = unfinished_legacy_stream
   \<and> delivered unfinished_legacy_stream = [(None, ''get_weather'', Some ''{"city": "SF"}'')]
   \<and> list_all2 (reconstructs sample_parse) (delivered unfinished_legacy_stream)
        [call_part ''call_17_k30'' ''get_weather'' (JObject [(''city'', JString ''SF'')])]
   \<and> convertFromOpenAIStream sample_parse sample_entropy unfinished_legacy_stream =
       [\<lparr> candidates =
            [\<lparr> cand_content =
                 \<lparr> c_role = Some ''model'',
                   c_parts = Some [call_part ''call_17_k30'' ''get_weather''
                                     (JObject [(''city'', JString ''SF'')])] \<rparr>,
               cand_finishReason = Some STOP,
               cand_index = 0 \<rparr>],
          usageMetadata = None,
          functionCalls =
            Some [\<lparr> fc_id = Some ''call_17_k30'', fc_name = Some ''get_weather'',
                    fc_args = Some (JObject [(''city'', JString ''SF'')]) \<rparr>] \<rparr>]\<close>
proof -
  have open_ended: "\<forall>chunk\<in>set unfinished_stream. \<not> finishes_calls chunk"
    by (simp add: unfinished_stream_def fragment_chunk_def finishes_calls_def is_call_finish_def)
  have fragments: "\<exists>chunk\<in>set unfinished_stream. carries_calls chunk"
    by (simp add: unfinished_stream_def fragment_chunk_def carries_calls_def)
  have minted: "mint sample_entropy 0 = ''call_17_k30''"
    by (simp add: mint_def sample_entropy_def decimal.simps)
  have loop: \<open>streamLoop sample_parse sample_entropy initial_state unfinished_stream =
          ([], \<lparr> currentFunctionCall = empty_call,
                 currentToolCalls =
                   [(0, \<lparr> acc_id = None, acc_name = Some ''get_weather'',
                           acc_arguments = Some ''{"city": "SF"}'' \<rparr>)],
                 hasActiveToolCalls = True, readings = 0 \<rparr>)\<close>
    by (simp add: unfinished_stream_def fragment_chunk_def processChunk_def initial_state_def
          empty_call_def accumulate_def accumulateToolCalls_def applyToolCallDelta_def
          flush_due_def is_call_finish_def Let_def)
  have remaining: \<open>remainingParts sample_parse sample_entropy
           \<lparr> currentFunctionCall = empty_call,
             currentToolCalls =
               [(0, \<lparr> acc_id = None, acc_name = Some ''get_weather'',
                       acc_arguments = Some ''{"city": "SF"}'' \<rparr>)],
             hasActiveToolCalls = True, readings = 0 \<rparr>
         = [call_part ''call_17_k30'' ''get_weather'' (JObject [(''city'', JString ''SF'')])]\<close>
    by (simp add: remainingParts_def finalizeFunctionCall_def empty_call_def push_call_def
          parse_arguments_def id_or_mint_def minted sample_parse_def Let_def)
  from unterminated_stream_flush [OF open_ended fragments, of sample_parse sample_entropy]
  have indexed: "convertFromOpenAIStream sample_parse sample_entropy unfinished_stream =
          [make_response
             [call_part ''call_17_k30'' ''get_weather'' (JObject [(''city'', JString ''SF'')])]
             (Some STOP) 0 None]"
    by (simp add: loop remaining)
  have indexed_open: "filter finishes_calls unfinished_stream = []"
    using open_ended by (simp add: filter_empty_conv)
  have indexed_carries: "filter carries_calls unfinished_stream = unfinished_stream"
    by (simp add: unfinished_stream_def fragment_chunk_def carries_calls_def)
  have legacy_open: "\<forall>chunk\<in>set unfinished_legacy_stream. \<not> finishes_calls chunk"
    by (simp add: unfinished_legacy_stream_def legacy_chunk_def finishes_calls_def
          is_call_finish_def)
  have legacy_carries: "\<forall>chunk\<in>set unfinished_legacy_stream. carries_calls chunk"
    by (simp add: unfinished_legacy_stream_def legacy_chunk_def carries_calls_def)
  then have legacy_fragments: "\<exists>chunk\<in>set unfinished_legacy_stream. carries_calls chunk"
    by (simp add: unfinished_legacy_stream_def)
  from legacy_carries have legacy_loud: "\<forall>chunk\<in>set unfinished_legacy_stream. \<not> silent chunk"
    by (simp add: silent_def)
  have legacy_loop: \<open>streamLoop sample_parse sample_entropy initial_state unfinished_legacy_stream =
          ([], \<lparr> currentFunctionCall =
                   \<lparr> acc_id = Some ''call_17_k30'', acc_name = Some ''get_weather'',
                     acc_arguments = Some ''{"city": "SF"}'' \<rparr>,
                 currentToolCalls = [],
                 hasActiveToolCalls = True, readings = Suc 0 \<rparr>)\<close>
    by (simp add: unfinished_legacy_stream_def legacy_chunk_def processChunk_def
          initial_state_def empty_call_def accumulate_def accumulateFunctionCall_def minted
          flush_due_def is_call_finish_def Let_def)
  have legacy_remaining: \<open>remainingParts sample_parse sample_entropy
           \<lparr> currentFunctionCall =
               \<lparr> acc_id = Some ''call_17_k30'', acc_name = Some ''get_weather'',
                 acc_arguments = Some ''{"city": "SF"}'' \<rparr>,
             currentToolCalls = [],
             hasActiveToolCalls = True, readings = Suc 0 \<rparr>
         = [call_part ''call_17_k30'' ''get_weather'' (JObject [(''city'', JString ''SF'')])]\<close>
    by (simp add: remainingParts_def finalizeFunctionCall_def push_call_def
          parse_arguments_def id_or_mint_def sample_parse_def Let_def)
  note legacy = unterminated_stream_flush [OF legacy_open legacy_fragments,
      of sample_parse sample_entropy]
  from legacy [THEN conjunct1] have legacy_output:
    "convertFromOpenAIStream sample_parse sample_entropy unfinished_legacy_stream =
          [make_response
             [call_part ''call_17_k30'' ''get_weather'' (JObject [(''city'', JString ''SF'')])]
             (Some STOP) 0 None]"
    by (simp add: legacy_loop legacy_remaining)
  from legacy [THEN conjunct2, THEN conjunct2, THEN conjunct1, THEN mp, OF legacy_loud,
      THEN conjunct1]
  have legacy_parts: "list_all2 (reconstructs sample_parse) (delivered unfinished_legacy_stream)
        [call_part ''call_17_k30'' ''get_weather'' (JObject [(''city'', JString ''SF'')])]"
    by (simp add: legacy_loop legacy_remaining)
  have legacy_delivered:
    \<open>delivered unfinished_legacy_stream = [(None, ''get_weather'', Some ''{"city": "SF"}'')]\<close>
    by (simp add: delivered_def unfinished_legacy_stream_def legacy_chunk_def
          legacy_fragments_def tool_fragments_def assemble_def last_truthy_def
          List.map_filter_def)
  have "filter finishes_calls unfinished_legacy_stream = []"
    using legacy_open by (simp add: filter_empty_conv)
  moreover have "filter silent unfinished_legacy_stream = []"
    using legacy_loud by (simp add: filter_empty_conv)
  moreover have "filter carries_calls unfinished_legacy_stream = unfinished_legacy_stream"
    using legacy_carries by simp
  ultimately show ?thesis
    using indexed indexed_open indexed_carries legacy_output legacy_parts legacy_delivered
    by (simp add: make_response_def function_calls_def call_part_def)
qed

lemma processChunk_parts:
  assumes "chunk_choices chunk = choice # others"
  shows "fst (processChunk parse entropy st chunk) =
           (if staged_text (d_content (sc_delta choice))
               @ (if flush_due (accumulate entropy (sc_delta choice) st) choice
                  then remainingParts parse entropy (accumulate entropy (sc_delta choice) st)
                  else []) = []
            then None
            else Some (make_response
                         (staged_text (d_content (sc_delta choice))
                          @ (if flush_due (accumulate entropy (sc_delta choice) st) choice
                             then remainingParts parse entropy
                                    (accumulate entropy (sc_delta choice) st)
                             else []))
                         (if str_truthy (sc_finish_reason choice)
                          then Some (mapFinishReason (str_or (sc_finish_reason choice) []))
                          else None)
                         (sc_index choice) None))"
  using assms
  by (simp add: processChunk_def staged_text_def flushCalls_parts Let_def)





lemma flushCalls_state:
  "currentToolCalls (snd (flushCalls parse entropy reason st)) = []
   \<and> pending_calls (snd (flushCalls parse entropy reason st)) = []"
  by (simp add: flushCalls_def pending_calls_def empty_call_def Let_def)

text \<open>
  C2, as amended. For a chunk with a choice, the call window is flushed exactly when the
  flag is set once the fragments of the chunk are accumulated and either the finish
  reason is \<open>function_call\<close> or \<open>tool_calls\<close>, or the delta has neither a
  \<open>function_call\<close> field nor a \<open>tool_calls\<close> field. When flushed, the parts of the named
  accumulators follow the text part in the emission of the chunk, the indexed
  accumulators are emptied and no named call stays accumulated; the flag is cleared on
  a call finish reason only. Otherwise the emission holds the text part alone and the
  accumulators are kept. The flag is set by either field, also by an empty list of
  tool-call fragments.
\<close>

theorem flush_trigger:
  assumes "chunk_choices chunk = choice # others"
  shows "(if hasActiveToolCalls (accumulate entropy (sc_delta choice) st)
             \<and> (sc_finish_reason choice = Some ''function_call''
                \<or> sc_finish_reason choice = Some ''tool_calls''
                \<or> (d_function_call (sc_delta choice) = None
                   \<and> d_tool_calls (sc_delta choice) = None))
          then (\<exists>calls.
                  list_all2 (reconstructs parse)
                    (pending_calls (accumulate entropy (sc_delta choice) st)) calls
                  \<and> fst (processChunk parse entropy st chunk) =
                      (if staged_text (d_content (sc_delta choice)) @ calls = [] then None
                       else Some (make_response
                                    (staged_text (d_content (sc_delta choice)) @ calls)
                                    (if str_truthy (sc_finish_reason choice)
                                     then Some (mapFinishReason (str_or (sc_finish_reason choice) []))
                                     else None)
                                    (sc_index choice) None)))
               \<and> currentToolCalls (snd (processChunk parse entropy st chunk)) = []
               \<and> pending_calls (snd (processChunk parse entropy st chunk)) = []
               \<and> hasActiveToolCalls (snd (processChunk parse entropy st chunk))
                   = (sc_finish_reason choice \<noteq> Some ''function_call''
                      \<and> sc_finish_reason choice \<noteq> Some ''tool_calls'')
          else fst (processChunk parse entropy st chunk) =
                 (if staged_text (d_content (sc_delta choice)) = [] then None
                  else Some (make_response
                               (staged_text (d_content (sc_delta choice)))
                               (if str_truthy (sc_finish_reason choice)
                                then Some (mapFinishReason (str_or (sc_finish_reason choice) []))
                                else None)
                               (sc_index choice) None))
               \<and> snd (processChunk parse entropy st chunk)
                   = accumulate entropy (sc_delta choice) st)
         \<and> hasActiveToolCalls (accumulate entropy (sc_delta choice) st)
             = (hasActiveToolCalls st \<or> d_function_call (sc_delta choice) \<noteq> None
                \<or> d_tool_calls (sc_delta choice) \<noteq> None)"
    (is "(if ?due then ?flushed else ?kept) \<and> ?flag")
proof -
  have due: "flush_due (accumulate entropy (sc_delta choice) st) choice = ?due"
    by (simp add: flush_due_def is_call_finish_def)
  have flag: ?flag
    by (rule accumulate_active)
  show ?thesis
  proof (cases "flush_due (accumulate entropy (sc_delta choice) st) choice")
    case True
    with due have is_due: ?due by simp
    from True have next_state: "snd (processChunk parse entropy st chunk)
        = snd (flushCalls parse entropy (sc_finish_reason choice)
                 (accumulate entropy (sc_delta choice) st))"
      using assms by (simp add: processChunk_def Let_def)
    have emitted: "fst (processChunk parse entropy st chunk) =
              (if staged_text (d_content (sc_delta choice))
                  @ remainingParts parse entropy (accumulate entropy (sc_delta choice) st) = []
               then None
               else Some (make_response
                            (staged_text (d_content (sc_delta choice))
                             @ remainingParts parse entropy
                                 (accumulate entropy (sc_delta choice) st))
                            (if str_truthy (sc_finish_reason choice)
                             then Some (mapFinishReason (str_or (sc_finish_reason choice) []))
                             else None)
                            (sc_index choice) None))"
      using processChunk_parts [OF assms, of parse entropy st] True by simp
    have parts: "\<exists>calls.
                  list_all2 (reconstructs parse)
                    (pending_calls (accumulate entropy (sc_delta choice) st)) calls
                  \<and> fst (processChunk parse entropy st chunk) =
                      (if staged_text (d_content (sc_delta choice)) @ calls = [] then None
                       else Some (make_response
                                    (staged_text (d_content (sc_delta choice)) @ calls)
                                    (if str_truthy (sc_finish_reason choice)
                                     then Some (mapFinishReason (str_or (sc_finish_reason choice) []))
                                     else None)
                                    (sc_index choice) None))"
      using emitted remainingParts_reconstructs
              [of parse "accumulate entropy (sc_delta choice) st" entropy]
      by blast
    have emptied: "currentToolCalls (snd (processChunk parse entropy st chunk)) = []"
      and none_pending: "pending_calls (snd (processChunk parse entropy st chunk)) = []"
      by (simp_all add: next_state flushCalls_state)
    have cleared: "hasActiveToolCalls (snd (processChunk parse entropy st chunk))
                   = (sc_finish_reason choice \<noteq> Some ''function_call''
                      \<and> sc_finish_reason choice \<noteq> Some ''tool_calls'')"
      using is_due by (simp add: next_state flushCalls_active is_call_finish_def)
    from parts emptied none_pending cleared have ?flushed
      by (intro conjI)
    with flag show ?thesis
      unfolding if_P [OF is_due] by (rule conjI [rotated])
  next
    case False
    with due have not_due: "\<not> ?due" by simp
    from False have ?kept
      using assms by (simp add: processChunk_def staged_text_def Let_def)
    with flag show ?thesis
      unfolding if_not_P [OF not_due] by (rule conjI [rotated])
  qed
qed

theorem flush_trigger_witness:
  "processChunk sample_parse sample_entropy waiting_state \<lparr> chunk_choices = [text_choice] \<rparr> =
     (Some (make_response
              [text_part ''done'', call_part ''call_1'' ''get_weather'' (JObject [])]
              None 0 None),
      \<lparr> currentFunctionCall = empty_call, currentToolCalls = [],
        hasActiveToolCalls = True, readings = 0 \<rparr>)
   \<and> processChunk sample_parse sample_entropy waiting_state \<lparr> chunk_choices = [finish_choice] \<rparr> =
     (Some (make_response [call_part ''call_1'' ''get_weather'' (JObject [])] (Some STOP) 0 None),
      \<lparr> currentFunctionCall = empty_call, currentToolCalls = [],
        hasActiveToolCalls = False, readings = 0 \<rparr>)
   \<and> processChunk sample_parse sample_entropy initial_state opening_chunk = (None, waiting_state)"
proof -
  note evals = processChunk_def waiting_state_def text_choice_def finish_choice_def
    opening_chunk_def fragment_chunk_def initial_state_def empty_call_def accumulate_def
    accumulateToolCalls_def applyToolCallDelta_def flush_due_def is_call_finish_def
    flushCalls_def finalizeFunctionCall_def push_call_def parse_arguments_def id_or_mint_def
    sample_parse_def mapFinishReason_def Let_def
  have by_silence:
    "processChunk sample_parse sample_entropy waiting_state \<lparr> chunk_choices = [text_choice] \<rparr> =
       (Some (make_response
                [text_part ''done'', call_part ''call_1'' ''get_weather'' (JObject [])]
                None 0 None),
        \<lparr> currentFunctionCall = empty_call, currentToolCalls = [],
          hasActiveToolCalls = True, readings = 0 \<rparr>)"
    using flush_trigger [of "\<lparr> chunk_choices = [text_choice] \<rparr>" text_choice "[]"
                            sample_entropy waiting_state sample_parse]
    by (simp add: evals)
  have by_finish:
    "processChunk sample_parse sample_entropy waiting_state \<lparr> chunk_choices = [finish_choice] \<rparr> =
       (Some (make_response [call_part ''call_1'' ''get_weather'' (JObject [])] (Some STOP) 0 None),
        \<lparr> currentFunctionCall = empty_call, currentToolCalls = [],
          hasActiveToolCalls = False, readings = 0 \<rparr>)"
    using flush_trigger [of "\<lparr> chunk_choices = [finish_choice] \<rparr>" finish_choice "[]"
                            sample_entropy waiting_state sample_parse]
    by (simp add: evals)
  have kept:
    "processChunk sample_parse sample_entropy initial_state opening_chunk = (None, waiting_state)"
    by (simp add: evals)
  from by_silence by_finish kept show ?thesis by simp
qed

text \<open>
  The claim as stated fails on a delta whose list of tool-call fragments is present and
  empty: after the opening chunk a named call is accumulated and the flag is set, the
  delta carries no fragment of either kind, and yet nothing is flushed.
\<close>

theorem flush_trigger_counterexample:
  "snd (streamLoop sample_parse sample_entropy initial_state [opening_chunk]) = waiting_state
   \<and> stated_flush_due waiting_state idle_choice
   \<and> pending_calls waiting_state = [(Some ''call_1'', ''get_weather'', Some ''{}'')]
   \<and> processChunk sample_parse sample_entropy waiting_state \<lparr> chunk_choices = [idle_choice] \<rparr>
       = (None, waiting_state)"
  by (simp add: processChunk_def waiting_state_def idle_choice_def opening_chunk_def
        fragment_chunk_def initial_state_def empty_call_def accumulate_def
        accumulateToolCalls_def applyToolCallDelta_def flush_due_def is_call_finish_def
        stated_flush_due_def pending_calls_def Let_def)


end
